theory Spec2Isabelle
  imports Complex_Main
begin

section \<open>Values of the rendering library\<close>

text \<open>
  The application (src/js/main.js) drives a three.js scene. JavaScript numbers are
  modelled as reals: every statement below is about the exact arithmetic the program
  writes down, not about rounding. The vector, quaternion, matrix and clock operations
  are those of the three.js classes the program calls (Vector3, Quaternion, Matrix4,
  Object3D, Clock), and the number controls are those of the lil-gui library
  (NumberController); they are library code outside the repository and are transcribed
  here operation by operation, under the library's method names.
\<close>

datatype Vector3 = Vector3 (vx: real) (vy: real) (vz: real)

datatype Quaternion = Quaternion (qx: real) (qy: real) (qz: real) (qw: real)

definition subVectors :: "Vector3 \<Rightarrow> Vector3 \<Rightarrow> Vector3" where
  "subVectors a b = Vector3 (vx a - vx b) (vy a - vy b) (vz a - vz b)"

definition sub :: "Vector3 \<Rightarrow> Vector3 \<Rightarrow> Vector3" where
  "sub v w = Vector3 (vx v - vx w) (vy v - vy w) (vz v - vz w)"

definition add :: "Vector3 \<Rightarrow> Vector3 \<Rightarrow> Vector3" where
  "add v w = Vector3 (vx v + vx w) (vy v + vy w) (vz v + vz w)"

definition multiplyScalar :: "Vector3 \<Rightarrow> real \<Rightarrow> Vector3" where
  "multiplyScalar v s = Vector3 (vx v * s) (vy v * s) (vz v * s)"

definition divideScalar :: "Vector3 \<Rightarrow> real \<Rightarrow> Vector3" where
  "divideScalar v s = multiplyScalar v (1 / s)"

definition dot :: "Vector3 \<Rightarrow> Vector3 \<Rightarrow> real" where
  "dot v w = vx v * vx w + vy v * vy w + vz v * vz w"

definition length_v :: "Vector3 \<Rightarrow> real" where
  "length_v v = sqrt (vx v * vx v + vy v * vy v + vz v * vz v)"

text \<open>\<^verbatim>\<open>normalize() { return this.divideScalar( this.length() || 1 ); }\<close>\<close>

definition normalize_v :: "Vector3 \<Rightarrow> Vector3" where
  "normalize_v v = divideScalar v (if length_v v = 0 then 1 else length_v v)"

text \<open>
  \<^verbatim>\<open>applyQuaternion\<close>: \<open>t = 2 * cross(q.xyz, v)\<close>, then
  \<open>v + q.w * t + cross(q.xyz, t)\<close>.
\<close>

definition applyQuaternion :: "Vector3 \<Rightarrow> Quaternion \<Rightarrow> Vector3" where
  "applyQuaternion v q =
     (let tx = 2 * (qy q * vz v - qz q * vy v);
          ty = 2 * (qz q * vx v - qx q * vz v);
          tz = 2 * (qx q * vy v - qy q * vx v)
      in Vector3 (vx v + qw q * tx + qy q * tz - qz q * ty)
                 (vy v + qw q * ty + qz q * tx - qx q * tz)
                 (vz v + qw q * tz + qx q * ty - qy q * tx))"

definition length_q :: "Quaternion \<Rightarrow> real" where
  "length_q q = sqrt (qx q * qx q + qy q * qy q + qz q * qz q + qw q * qw q)"

definition normalize_q :: "Quaternion \<Rightarrow> Quaternion" where
  "normalize_q q =
     (let l = length_q q
      in if l = 0 then Quaternion 0 0 0 1
         else (let l' = 1 / l
               in Quaternion (qx q * l') (qy q * l') (qz q * l') (qw q * l')))"

definition setFromAxisAngle :: "Vector3 \<Rightarrow> real \<Rightarrow> Quaternion" where
  "setFromAxisAngle axis angle =
     (let halfAngle = angle / 2; s = sin halfAngle
      in Quaternion (vx axis * s) (vy axis * s) (vz axis * s) (cos halfAngle))"

definition multiplyQuaternions :: "Quaternion \<Rightarrow> Quaternion \<Rightarrow> Quaternion" where
  "multiplyQuaternions a b =
     Quaternion (qx a * qw b + qw a * qx b + qy a * qz b - qz a * qy b)
                (qy a * qw b + qw a * qy b + qz a * qx b - qx a * qz b)
                (qz a * qw b + qw a * qz b + qx a * qy b - qy a * qx b)
                (qw a * qw b - qx a * qx b - qy a * qy b - qz a * qz b)"

definition Number_EPSILON :: real where
  "Number_EPSILON = 1 / 2 ^ 52"

text \<open>
  \<^verbatim>\<open>setFromUnitVectors(vFrom, vTo)\<close>: the rotation taking the unit vector
  \<open>vFrom\<close> to the unit vector \<open>vTo\<close> along the shortest arc; the first branch is
  the library's choice for (nearly) opposite vectors.
\<close>

definition setFromUnitVectors :: "Vector3 \<Rightarrow> Vector3 \<Rightarrow> Quaternion" where
  "setFromUnitVectors vFrom vTo =
     (let r = dot vFrom vTo + 1
      in if r < Number_EPSILON
         then (if \<bar>vx vFrom\<bar> > \<bar>vz vFrom\<bar>
               then normalize_q (Quaternion (- vy vFrom) (vx vFrom) 0 0)
               else normalize_q (Quaternion 0 (- vz vFrom) (vy vFrom) 0))
         else normalize_q
                (Quaternion (vy vFrom * vz vTo - vz vFrom * vy vTo)
                            (vz vFrom * vx vTo - vx vFrom * vz vTo)
                            (vx vFrom * vy vTo - vy vFrom * vx vTo)
                            r))"

text \<open>
  Object3D: \<^verbatim>\<open>rotation.set(0, 0, 0)\<close> resets the orientation quaternion to the
  identity, and \<^verbatim>\<open>rotateX/Y/Z(angle)\<close> multiply it on the right by the rotation
  about the local axis.
\<close>

definition identity_q :: Quaternion where
  "identity_q = Quaternion 0 0 0 1"

definition rotateOnAxis :: "Quaternion \<Rightarrow> Vector3 \<Rightarrow> real \<Rightarrow> Quaternion" where
  "rotateOnAxis q axis angle = multiplyQuaternions q (setFromAxisAngle axis angle)"

definition rotateX :: "Quaternion \<Rightarrow> real \<Rightarrow> Quaternion" where
  "rotateX q angle = rotateOnAxis q (Vector3 1 0 0) angle"

definition rotateY :: "Quaternion \<Rightarrow> real \<Rightarrow> Quaternion" where
  "rotateY q angle = rotateOnAxis q (Vector3 0 1 0) angle"

definition rotateZ :: "Quaternion \<Rightarrow> real \<Rightarrow> Quaternion" where
  "rotateZ q angle = rotateOnAxis q (Vector3 0 0 1) angle"

text \<open>
  \<^verbatim>\<open>Matrix4.compose(position, quaternion, scale)\<close>, the local transform matrix
  of an Object3D, as its 16 elements in column-major order.
\<close>

definition compose :: "Vector3 \<Rightarrow> Quaternion \<Rightarrow> Vector3 \<Rightarrow> real list" where
  "compose position quaternion scale =
     (let x = qx quaternion; y = qy quaternion; z = qz quaternion; w = qw quaternion;
          x2 = x + x; y2 = y + y; z2 = z + z;
          xx = x * x2; xy = x * y2; xz = x * z2;
          yy = y * y2; yz = y * z2; zz = z * z2;
          wx = w * x2; wy = w * y2; wz = w * z2;
          sx = vx scale; sy = vy scale; sz = vz scale
      in [(1 - (yy + zz)) * sx, (xy + wz) * sx, (xz - wy) * sx, 0,
          (xy - wz) * sy, (1 - (xx + zz)) * sy, (yz + wx) * sy, 0,
          (xz + wy) * sz, (yz - wx) * sz, (1 - (xx + yy)) * sz, 0,
          vx position, vy position, vz position, 1])"

section \<open>The clock\<close>

text \<open>
  \<^verbatim>\<open>THREE.Clock\<close>. The wall-clock reading \<^verbatim>\<open>performance.now()\<close> (milliseconds)
  is an input of every operation. \<^verbatim>\<open>start()\<close> sets \<open>elapsedTime\<close> to 0.
\<close>

record Clock =
  autoStart :: bool
  startTime :: real
  oldTime :: real
  elapsedTime :: real
  running :: bool

definition new_Clock :: Clock where
  "new_Clock = \<lparr>autoStart = True, startTime = 0, oldTime = 0, elapsedTime = 0, running = False\<rparr>"

definition start :: "real \<Rightarrow> Clock \<Rightarrow> Clock" where
  "start now c = c\<lparr>startTime := now, oldTime := now, elapsedTime := 0, running := True\<rparr>"

definition getDelta :: "real \<Rightarrow> Clock \<Rightarrow> real \<times> Clock" where
  "getDelta now c =
     (if autoStart c \<and> \<not> running c then (0, start now c)
      else if running c
           then (let diff = (now - oldTime c) / 1000
                 in (diff, c\<lparr>oldTime := now, elapsedTime := elapsedTime c + diff\<rparr>))
           else (0, c))"

definition getElapsedTime :: "real \<Rightarrow> Clock \<Rightarrow> real \<times> Clock" where
  "getElapsedTime now c = (let c' = snd (getDelta now c) in (elapsedTime c', c'))"

definition stop :: "real \<Rightarrow> Clock \<Rightarrow> Clock" where
  "stop now c = (snd (getElapsedTime now c))\<lparr>running := False, autoStart := False\<rparr>"

section \<open>The application state\<close>

record SpeedControls =
  earthRotationSpeed :: real
  pauseAnimation :: bool

datatype LightTarget = DefaultTarget | EarthGroupTarget

text \<open>
  The fields of \<^verbatim>\<open>SolarSystemApp\<close> that the frame loop and the GUI handlers read or
  write. \<open>this_elapsedTime\<close> is \<^verbatim>\<open>this.elapsedTime\<close>; an Object3D's orientation is its
  quaternion, except for the three meshes whose only rotation ever set is
  \<^verbatim>\<open>rotation.y\<close>. \<open>moonOrbitInclination\<close> is the field of the \<^verbatim>\<open>moonOrbitControls\<close>
  object of \<^verbatim>\<open>createGUI\<close>. The scene objects exist from \<^verbatim>\<open>createSolarSystem\<close> on, before the
  first frame, so the frame loop's existence tests on them are true; \<open>speedControls\<close>
  keeps its test, whose other branch carries the constant 73.05.
\<close>

record App =
  clock :: Clock
  this_elapsedTime :: real
  speedControls :: "SpeedControls option"
  sun_rotation_y :: real
  earth_rotation_y :: real
  clouds_rotation_y :: real
  earthGroup_position :: Vector3
  earthGroup_quaternion :: Quaternion
  sunDirectionalLight_position :: Vector3
  sunDirectionalLight_target :: LightTarget
  secondDirectionalLight_position :: Vector3
  secondDirectionalLight_target :: LightTarget
  moonGroup_quaternion :: Quaternion
  moon_position :: Vector3
  moon_quaternion :: Quaternion
  atmosphere_sunPosition :: Vector3
  atmosphereIntensity :: real
  moonOrbitInclination :: real

text \<open>The state the constructor leaves: \<^verbatim>\<open>createEarth\<close>, \<^verbatim>\<open>createMoon\<close>, \<^verbatim>\<open>createGUI\<close>.\<close>

definition new_SolarSystemApp :: App where
  "new_SolarSystemApp =
     \<lparr>clock = new_Clock,
      this_elapsedTime = 0,
      speedControls = Some \<lparr>earthRotationSpeed = 1, pauseAnimation = False\<rparr>,
      sun_rotation_y = 0,
      earth_rotation_y = 0,
      clouds_rotation_y = 0,
      earthGroup_position = Vector3 0 0 0,
      earthGroup_quaternion = identity_q,
      sunDirectionalLight_position = Vector3 0 0 0,
      sunDirectionalLight_target = DefaultTarget,
      secondDirectionalLight_position = Vector3 0 0 0,
      secondDirectionalLight_target = DefaultTarget,
      moonGroup_quaternion = rotateX identity_q (5.1 * pi / 180),
      moon_position = Vector3 5 0 0,
      moon_quaternion = identity_q,
      atmosphere_sunPosition = Vector3 0 0 0,
      atmosphereIntensity = 0.8,
      moonOrbitInclination = 5.1\<rparr>"

section \<open>The orbit\<close>

definition earthOrbitRadius :: real where
  "earthOrbitRadius = 20"

definition earthOrbitEccentricity :: real where
  "earthOrbitEccentricity = 0.25"

text \<open>
  \<^verbatim>\<open>calcOrbitPoint\<close> of \<^verbatim>\<open>createEarth\<close>; the two constants it captures are its first
  two arguments here.
\<close>

definition calcOrbitPoint :: "real \<Rightarrow> real \<Rightarrow> real \<Rightarrow> Vector3" where
  "calcOrbitPoint a e angle =
     (let r = (a * (1 - e * e)) / (1 + e * cos angle)
      in Vector3 (- r * cos angle) 0 (r * sin angle))"

definition perihelionPosition :: Vector3 where
  "perihelionPosition = Vector3 (- earthOrbitRadius * (1 - earthOrbitEccentricity)) 0 0"

definition aphelionPosition :: Vector3 where
  "aphelionPosition = Vector3 (earthOrbitRadius * (1 + earthOrbitEccentricity)) 0 0"

section \<open>The frame loop\<close>

text \<open>\<^verbatim>\<open>this.elapsedTime = this.clock.getElapsedTime()\<close>\<close>

definition animate_clock :: "real \<Rightarrow> App \<Rightarrow> App" where
  "animate_clock now app =
     (let r = getElapsedTime now (clock app)
      in app\<lparr>clock := snd r, this_elapsedTime := fst r\<rparr>)"

definition animate_sun :: "App \<Rightarrow> App" where
  "animate_sun app =
     (let baseSunRotation = 0.05;
          earthRotationRatio =
            (case speedControls app of Some sc \<Rightarrow> earthRotationSpeed sc / 73.05 | None \<Rightarrow> 1)
      in app\<lparr>sun_rotation_y := this_elapsedTime app * baseSunRotation * earthRotationRatio\<rparr>)"

text \<open>
  \<^verbatim>\<open>const earthRotationSpeed = this.speedControls ? this.speedControls.earthRotationSpeed : 73.05\<close>
  and \<^verbatim>\<open>const earthOrbitSpeed = earthRotationSpeed / 365.25\<close>, as both the Earth and
  the Moon block of the frame loop compute them.
\<close>

definition frame_earthRotationSpeed :: "App \<Rightarrow> real" where
  "frame_earthRotationSpeed app =
     (case speedControls app of Some sc \<Rightarrow> earthRotationSpeed sc | None \<Rightarrow> 73.05)"

definition frame_earthOrbitSpeed :: "App \<Rightarrow> real" where
  "frame_earthOrbitSpeed app = frame_earthRotationSpeed app / 365.25"

text \<open>
  The Earth block. \<^verbatim>\<open>sunToEarth.multiplyScalar(10)\<close> scales the vector in place, so
  the second light reads the scaled vector: \<open>sunToEarth'\<close>.
\<close>

definition animate_earth :: "App \<Rightarrow> App" where
  "animate_earth app =
     (let earthRotationSpeed = frame_earthRotationSpeed app;
          earthOrbitSpeed = earthRotationSpeed / 365.25;
          angle = this_elapsedTime app * earthOrbitSpeed;
          earthOrbitRadius = 20;
          earthOrbitEccentricity = 0.25;
          r = (earthOrbitRadius * (1 - earthOrbitEccentricity * earthOrbitEccentricity)) /
              (1 + earthOrbitEccentricity * cos angle);
          earthX = - r * cos angle;
          earthZ = r * sin angle;
          position = Vector3 earthX 0 earthZ;
          quaternion = rotateY (rotateZ identity_q (23.5 * pi / 180))
                               (this_elapsedTime app * earthOrbitSpeed);
          sunToEarth = normalize_v (subVectors position (Vector3 0 0 0));
          sunToEarth' = multiplyScalar sunToEarth 10;
          offsetAngle = pi / 12;
          offsetVector = normalize_v (Vector3 (sin offsetAngle) (cos offsetAngle) 0);
          offsetPosition =
            sub position (add (multiplyScalar sunToEarth' 8) (multiplyScalar offsetVector 2))
      in app\<lparr>earth_rotation_y := this_elapsedTime app * earthRotationSpeed,
              clouds_rotation_y := this_elapsedTime app * (earthRotationSpeed * 0.9),
              earthGroup_position := position,
              earthGroup_quaternion := quaternion,
              sunDirectionalLight_position := sub position sunToEarth',
              sunDirectionalLight_target := EarthGroupTarget,
              secondDirectionalLight_position := offsetPosition,
              secondDirectionalLight_target := EarthGroupTarget\<rparr>)"

definition animate_moon :: "App \<Rightarrow> App" where
  "animate_moon app =
     (let earthOrbitSpeed = frame_earthOrbitSpeed app;
          moonOrbitSpeed = earthOrbitSpeed * (365.25 / 27.32);
          moonToEarth = normalize_v (sub (Vector3 0 0 0) (moon_position app));
          quaternion = setFromUnitVectors (Vector3 0 0 1) moonToEarth
      in app\<lparr>moonGroup_quaternion :=
                rotateX (rotateY identity_q (this_elapsedTime app * moonOrbitSpeed))
                        (5.1 * pi / 180),
              moon_quaternion := quaternion\<rparr>)"

definition animate_atmosphere :: "App \<Rightarrow> App" where
  "animate_atmosphere app =
     app\<lparr>atmosphere_sunPosition := Vector3 0 0 0, atmosphereIntensity := 0.8\<rparr>"

text \<open>
  \<^verbatim>\<open>animate()\<close>, up to the calls that only draw (the speed-ratio label, the camera
  controls, the composer, the request for the next frame).
\<close>

definition animate :: "real \<Rightarrow> App \<Rightarrow> App" where
  "animate now app =
     animate_atmosphere (animate_moon (animate_earth (animate_sun (animate_clock now app))))"

section \<open>The GUI handlers\<close>

text \<open>The \<^verbatim>\<open>pauseAnimation\<close> checkbox: \<^verbatim>\<open>if (value) clock.stop() else clock.start()\<close>.\<close>

definition pauseAnimation_onChange :: "real \<Rightarrow> bool \<Rightarrow> App \<Rightarrow> App" where
  "pauseAnimation_onChange now v app =
     (if v then app\<lparr>clock := stop now (clock app)\<rparr>
      else app\<lparr>clock := start now (clock app)\<rparr>)"

text \<open>
  The \<^verbatim>\<open>moonOrbitInclination\<close> control's \<^verbatim>\<open>onChange\<close> handler; the control
  calls it with the number it has stored.
\<close>

definition moonOrbitInclination_onChange :: "real \<Rightarrow> App \<Rightarrow> App" where
  "moonOrbitInclination_onChange v app =
     (let earthOrbitSpeed = 0.2;
          moonOrbitSpeed = earthOrbitSpeed * (365.25 / 27.32)
      in app\<lparr>moonGroup_quaternion :=
                rotateX (rotateY identity_q (this_elapsedTime app * moonOrbitSpeed))
                        (v * pi / 180)\<rparr>)"

text \<open>
  \<^verbatim>\<open>resetSpeeds\<close>, a method of the \<^verbatim>\<open>speedControls\<close> object:
  \<^verbatim>\<open>this.speedControls.earthRotationSpeed = 1\<close>.
\<close>

definition resetSpeeds :: "App \<Rightarrow> App" where
  "resetSpeeds app =
     app\<lparr>speedControls :=
           (case speedControls app of
              Some sc \<Rightarrow> Some (sc\<lparr>earthRotationSpeed := 1\<rparr>)
            | None \<Rightarrow> None)\<rparr>"

text \<open>The \<^verbatim>\<open>atmosphereIntensity\<close> slider writes the uniform's \<^verbatim>\<open>value\<close> field.\<close>

definition atmosphereIntensity_set :: "real \<Rightarrow> App \<Rightarrow> App" where
  "atmosphereIntensity_set v app = app\<lparr>atmosphereIntensity := v\<rparr>"

section \<open>The number controls\<close>

text \<open>
  A lil-gui number controller made by \<^verbatim>\<open>add(object, property, min, max, step)\<close>; the
  three fields are the library's \<^verbatim>\<open>_min\<close>, \<^verbatim>\<open>_max\<close> and \<^verbatim>\<open>_step\<close>. A value the user
  enters, by the slider or by typing, is snapped to the step, counted from the minimum,
  then clamped into the range, then handed to \<^verbatim>\<open>setValue\<close>, which stores it in the
  object's property and calls the \<^verbatim>\<open>onChange\<close> handler when it differs from the value
  stored before. \<^verbatim>\<open>Math.round\<close> rounds a half upwards.
\<close>

record NumberController =
  ctl_min :: real
  ctl_max :: real
  ctl_step :: real

definition Math_round :: "real \<Rightarrow> real" where
  "Math_round x = of_int \<lfloor>x + 1 / 2\<rfloor>"

definition snap :: "NumberController \<Rightarrow> real \<Rightarrow> real" where
  "snap c v =
     (let offset = ctl_min c;
          v1 = v - offset;
          v2 = Math_round (v1 / ctl_step c) * ctl_step c
      in v2 + offset)"

definition clamp :: "NumberController \<Rightarrow> real \<Rightarrow> real" where
  "clamp c v =
     (let v1 = (if v < ctl_min c then ctl_min c else v)
      in if v1 > ctl_max c then ctl_max c else v1)"

text \<open>
  \<^verbatim>\<open>speedFolder.add(this.speedControls, 'earthRotationSpeed', 0, 200, 0.1)\<close> and
  \<^verbatim>\<open>orbitFolder.add(moonOrbitControls, 'moonOrbitInclination', 0, 10, 0.1)\<close>.
\<close>

definition speedRotationControl :: NumberController where
  "speedRotationControl = \<lparr>ctl_min = 0, ctl_max = 200, ctl_step = 0.1\<rparr>"

definition moonOrbitInclinationControl :: NumberController where
  "moonOrbitInclinationControl = \<lparr>ctl_min = 0, ctl_max = 10, ctl_step = 0.1\<rparr>"

text \<open>
  The user enters \<open>v\<close> in the speed control, which has no handler, and in the
  inclination control, whose handler is \<open>moonOrbitInclination_onChange\<close>.
\<close>

definition speedRotationControl_input :: "real \<Rightarrow> App \<Rightarrow> App" where
  "speedRotationControl_input v app =
     (let value = clamp speedRotationControl (snap speedRotationControl v)
      in case speedControls app of
           None \<Rightarrow> app
         | Some sc \<Rightarrow>
             if earthRotationSpeed sc \<noteq> value
             then app\<lparr>speedControls := Some (sc\<lparr>earthRotationSpeed := value\<rparr>)\<rparr>
             else app)"

definition moonOrbitInclination_input :: "real \<Rightarrow> App \<Rightarrow> App" where
  "moonOrbitInclination_input v app =
     (let value = clamp moonOrbitInclinationControl (snap moonOrbitInclinationControl v)
      in if moonOrbitInclination app \<noteq> value
         then moonOrbitInclination_onChange value (app\<lparr>moonOrbitInclination := value\<rparr>)
         else app)"

section \<open>The scene graph\<close>

text \<open>
  Positions and directions in scene coordinates. The scene graph is
  scene \<open>\<rightarrow>\<close> eclipticGroup \<open>\<rightarrow>\<close> earthGroup \<open>\<rightarrow>\<close> moonGroup \<open>\<rightarrow>\<close> moon; the ecliptic group is never
  moved or turned, the Earth mesh sits at the origin of earthGroup, moonGroup at the origin
  of earthGroup, and no object is scaled. A child's local vector is turned by each
  ancestor's quaternion in turn, and a point is then moved by the ancestor's position
  (\<^verbatim>\<open>matrixWorld = parent.matrixWorld * matrix\<close>).
\<close>

definition earth_worldPosition :: "App \<Rightarrow> Vector3" where
  "earth_worldPosition app = earthGroup_position app"

definition moon_worldPosition :: "App \<Rightarrow> Vector3" where
  "moon_worldPosition app =
     add (earthGroup_position app)
         (applyQuaternion (applyQuaternion (moon_position app) (moonGroup_quaternion app))
                          (earthGroup_quaternion app))"

definition moon_worldDirection :: "App \<Rightarrow> Vector3 \<Rightarrow> Vector3" where
  "moon_worldDirection app v =
     applyQuaternion
       (applyQuaternion (applyQuaternion v (moon_quaternion app)) (moonGroup_quaternion app))
       (earthGroup_quaternion app)"

text \<open>
  The local transform matrix of the Moon's orbit group: it is never moved or scaled, so
  \<^verbatim>\<open>updateMatrix\<close> composes it from the zero position, the quaternion and the unit
  scale.
\<close>

definition moonGroup_matrix :: "App \<Rightarrow> real list" where
  "moonGroup_matrix app = compose (Vector3 0 0 0) (moonGroup_quaternion app) (Vector3 1 1 1)"

text \<open>
  A directional light shines from its position towards its target; both lights are
  children of the scene, and their target, once the frame loop has set it, is the Earth
  group.
\<close>

definition sunDirectionalLight_direction :: "App \<Rightarrow> Vector3" where
  "sunDirectionalLight_direction app =
     sub (earthGroup_position app) (sunDirectionalLight_position app)"

definition secondDirectionalLight_direction :: "App \<Rightarrow> Vector3" where
  "secondDirectionalLight_direction app =
     sub (earthGroup_position app) (secondDirectionalLight_position app)"

text \<open>
  What a frame hands to the renderer: the placement and orientation of the Sun, the
  Earth, the clouds and the Moon, and the two light positions.
\<close>

definition transforms ::
  "App \<Rightarrow> (real \<times> real \<times> real) \<times> (Vector3 \<times> Quaternion) \<times>
          (Quaternion \<times> Vector3 \<times> Quaternion) \<times> (Vector3 \<times> Vector3)" where
  "transforms app =
     ((sun_rotation_y app, earth_rotation_y app, clouds_rotation_y app),
      (earthGroup_position app, earthGroup_quaternion app),
      (moonGroup_quaternion app, moon_position app, moon_quaternion app),
      (sunDirectionalLight_position app, secondDirectionalLight_position app))"

section \<open>What each block of the frame loop writes\<close>

lemma animate_clock_writes:
  "this_elapsedTime (animate_clock now app) = fst (getElapsedTime now (clock app))"
  "clock (animate_clock now app) = snd (getElapsedTime now (clock app))"
  by (simp_all add: animate_clock_def Let_def)

lemma animate_clock_keeps:
  "speedControls (animate_clock now app) = speedControls app"
  "moon_position (animate_clock now app) = moon_position app"
  by (simp_all add: animate_clock_def Let_def)

lemma animate_sun_writes:
  "sun_rotation_y (animate_sun app) =
     this_elapsedTime app * 0.05 *
     (case speedControls app of Some sc \<Rightarrow> earthRotationSpeed sc / 73.05 | None \<Rightarrow> 1)"
  by (cases app) (simp only: animate_sun_def Let_def App.select_convs App.update_convs)

lemma animate_sun_keeps:
  "this_elapsedTime (animate_sun app) = this_elapsedTime app"
  "speedControls (animate_sun app) = speedControls app"
  "moon_position (animate_sun app) = moon_position app"
  "clock (animate_sun app) = clock app"
  by (simp_all add: animate_sun_def Let_def)

lemma animate_earth_writes:
  "earth_rotation_y (animate_earth app) = this_elapsedTime app * frame_earthRotationSpeed app"
  "clouds_rotation_y (animate_earth app) =
     this_elapsedTime app * (frame_earthRotationSpeed app * 0.9)"
  "earthGroup_position (animate_earth app) =
     calcOrbitPoint 20 0.25 (this_elapsedTime app * (frame_earthRotationSpeed app / 365.25))"
  "earthGroup_quaternion (animate_earth app) =
     rotateY (rotateZ identity_q (23.5 * pi / 180))
             (this_elapsedTime app * (frame_earthRotationSpeed app / 365.25))"
  "sunDirectionalLight_target (animate_earth app) = EarthGroupTarget"
  "secondDirectionalLight_target (animate_earth app) = EarthGroupTarget"
  by (cases app; simp only: animate_earth_def calcOrbitPoint_def Let_def
        App.select_convs App.update_convs)+

lemma animate_earth_lights:
  "sunDirectionalLight_position (animate_earth app) =
     sub (earthGroup_position (animate_earth app))
         (multiplyScalar
            (normalize_v (subVectors (earthGroup_position (animate_earth app)) (Vector3 0 0 0)))
            10)"
  "secondDirectionalLight_position (animate_earth app) =
     sub (earthGroup_position (animate_earth app))
         (add (multiplyScalar
                 (multiplyScalar
                    (normalize_v
                       (subVectors (earthGroup_position (animate_earth app)) (Vector3 0 0 0)))
                    10)
                 8)
              (multiplyScalar (normalize_v (Vector3 (sin (pi / 12)) (cos (pi / 12)) 0)) 2))"
  by (cases app; simp only: animate_earth_def Let_def App.select_convs App.update_convs)+

lemma animate_earth_keeps:
  "this_elapsedTime (animate_earth app) = this_elapsedTime app"
  "speedControls (animate_earth app) = speedControls app"
  "moon_position (animate_earth app) = moon_position app"
  "sun_rotation_y (animate_earth app) = sun_rotation_y app"
  "clock (animate_earth app) = clock app"
  by (simp_all add: animate_earth_def Let_def)

lemma animate_moon_writes:
  "moonGroup_quaternion (animate_moon app) =
     rotateX (rotateY identity_q
                (this_elapsedTime app * (frame_earthOrbitSpeed app * (365.25 / 27.32))))
             (5.1 * pi / 180)"
  "moon_quaternion (animate_moon app) =
     setFromUnitVectors (Vector3 0 0 1) (normalize_v (sub (Vector3 0 0 0) (moon_position app)))"
  by (cases app; simp only: animate_moon_def Let_def App.select_convs App.update_convs)+

lemma animate_moon_keeps:
  "this_elapsedTime (animate_moon app) = this_elapsedTime app"
  "speedControls (animate_moon app) = speedControls app"
  "moon_position (animate_moon app) = moon_position app"
  "sun_rotation_y (animate_moon app) = sun_rotation_y app"
  "earth_rotation_y (animate_moon app) = earth_rotation_y app"
  "clouds_rotation_y (animate_moon app) = clouds_rotation_y app"
  "earthGroup_position (animate_moon app) = earthGroup_position app"
  "earthGroup_quaternion (animate_moon app) = earthGroup_quaternion app"
  "sunDirectionalLight_position (animate_moon app) = sunDirectionalLight_position app"
  "sunDirectionalLight_target (animate_moon app) = sunDirectionalLight_target app"
  "secondDirectionalLight_position (animate_moon app) = secondDirectionalLight_position app"
  "secondDirectionalLight_target (animate_moon app) = secondDirectionalLight_target app"
  "clock (animate_moon app) = clock app"
  by (simp_all add: animate_moon_def Let_def)

lemma animate_atmosphere_writes:
  "atmosphereIntensity (animate_atmosphere app) = 0.8"
  "atmosphere_sunPosition (animate_atmosphere app) = Vector3 0 0 0"
  by (simp_all add: animate_atmosphere_def)

lemma animate_atmosphere_keeps:
  "this_elapsedTime (animate_atmosphere app) = this_elapsedTime app"
  "speedControls (animate_atmosphere app) = speedControls app"
  "moon_position (animate_atmosphere app) = moon_position app"
  "sun_rotation_y (animate_atmosphere app) = sun_rotation_y app"
  "earth_rotation_y (animate_atmosphere app) = earth_rotation_y app"
  "clouds_rotation_y (animate_atmosphere app) = clouds_rotation_y app"
  "earthGroup_position (animate_atmosphere app) = earthGroup_position app"
  "earthGroup_quaternion (animate_atmosphere app) = earthGroup_quaternion app"
  "sunDirectionalLight_position (animate_atmosphere app) = sunDirectionalLight_position app"
  "sunDirectionalLight_target (animate_atmosphere app) = sunDirectionalLight_target app"
  "secondDirectionalLight_position (animate_atmosphere app) = secondDirectionalLight_position app"
  "secondDirectionalLight_target (animate_atmosphere app) = secondDirectionalLight_target app"
  "moonGroup_quaternion (animate_atmosphere app) = moonGroup_quaternion app"
  "moon_quaternion (animate_atmosphere app) = moon_quaternion app"
  "clock (animate_atmosphere app) = clock app"
  by (simp_all add: animate_atmosphere_def)

lemma frame_speed_keeps:
  "frame_earthRotationSpeed (animate_clock now app) = frame_earthRotationSpeed app"
  "frame_earthRotationSpeed (animate_sun app) = frame_earthRotationSpeed app"
  "frame_earthRotationSpeed (animate_earth app) = frame_earthRotationSpeed app"
  "frame_earthOrbitSpeed (animate_clock now app) = frame_earthOrbitSpeed app"
  "frame_earthOrbitSpeed (animate_sun app) = frame_earthOrbitSpeed app"
  "frame_earthOrbitSpeed (animate_earth app) = frame_earthOrbitSpeed app"
  by (simp_all only: frame_earthRotationSpeed_def frame_earthOrbitSpeed_def
        animate_clock_keeps animate_sun_keeps animate_earth_keeps)

lemmas animate_stage =
  animate_atmosphere_keeps animate_atmosphere_writes animate_moon_keeps animate_moon_writes
  animate_earth_keeps animate_earth_writes animate_sun_keeps animate_sun_writes
  animate_clock_keeps animate_clock_writes frame_speed_keeps

text \<open>The frame as a whole, with \<open>t\<close> the elapsed time the clock returns.\<close>

lemma animate_fields:
  "this_elapsedTime (animate now app) = fst (getElapsedTime now (clock app))"
  "clock (animate now app) = snd (getElapsedTime now (clock app))"
  "speedControls (animate now app) = speedControls app"
  "moon_position (animate now app) = moon_position app"
  "sun_rotation_y (animate now app) =
     fst (getElapsedTime now (clock app)) * 0.05 *
     (case speedControls app of Some sc \<Rightarrow> earthRotationSpeed sc / 73.05 | None \<Rightarrow> 1)"
  "earth_rotation_y (animate now app) =
     fst (getElapsedTime now (clock app)) * frame_earthRotationSpeed app"
  "clouds_rotation_y (animate now app) =
     fst (getElapsedTime now (clock app)) * (frame_earthRotationSpeed app * 0.9)"
  "earthGroup_position (animate now app) =
     calcOrbitPoint 20 0.25
       (fst (getElapsedTime now (clock app)) * (frame_earthRotationSpeed app / 365.25))"
  "earthGroup_quaternion (animate now app) =
     rotateY (rotateZ identity_q (23.5 * pi / 180))
             (fst (getElapsedTime now (clock app)) * (frame_earthRotationSpeed app / 365.25))"
  "sunDirectionalLight_target (animate now app) = EarthGroupTarget"
  "secondDirectionalLight_target (animate now app) = EarthGroupTarget"
  "moonGroup_quaternion (animate now app) =
     rotateX (rotateY identity_q
                (fst (getElapsedTime now (clock app)) *
                 (frame_earthOrbitSpeed app * (365.25 / 27.32))))
             (5.1 * pi / 180)"
  "moon_quaternion (animate now app) =
     setFromUnitVectors (Vector3 0 0 1) (normalize_v (sub (Vector3 0 0 0) (moon_position app)))"
  "atmosphereIntensity (animate now app) = 0.8"
  unfolding animate_def by (simp_all only: animate_stage)

lemma animate_lights:
  "sunDirectionalLight_position (animate now app) =
     sub (earthGroup_position (animate now app))
         (multiplyScalar
            (normalize_v (subVectors (earthGroup_position (animate now app)) (Vector3 0 0 0)))
            10)"
  "secondDirectionalLight_position (animate now app) =
     sub (earthGroup_position (animate now app))
         (add (multiplyScalar
                 (multiplyScalar
                    (normalize_v
                       (subVectors (earthGroup_position (animate now app)) (Vector3 0 0 0)))
                    10)
                 8)
              (multiplyScalar (normalize_v (Vector3 (sin (pi / 12)) (cos (pi / 12)) 0)) 2))"
  unfolding animate_def
  by (simp_all only: animate_atmosphere_keeps animate_moon_keeps animate_earth_lights)

section \<open>The orbit model\<close>

lemma orbit_denominator_pos:
  fixes e :: real
  assumes "0 \<le> e" "e < 1"
  shows "0 < 1 + e * cos \<theta>"
proof -
  have "- 1 \<le> cos \<theta>" by simp
  then have "e * (- 1) \<le> e * cos \<theta>"
    using assms(1) by (rule mult_left_mono)
  then show ?thesis using assms(2) by simp
qed

lemma length_v_polar:
  assumes "0 \<le> r"
  shows "length_v (Vector3 (- r * cos \<theta>) 0 (r * sin \<theta>)) = r"
proof -
  have "(- r * cos \<theta>) * (- r * cos \<theta>) + 0 * 0 + (r * sin \<theta>) * (r * sin \<theta>)
        = r\<^sup>2 * ((sin \<theta>)\<^sup>2 + (cos \<theta>)\<^sup>2)"
    by (simp only: power2_eq_square) algebra
  then have "(- r * cos \<theta>) * (- r * cos \<theta>) + 0 * 0 + (r * sin \<theta>) * (r * sin \<theta>) = r\<^sup>2"
    by simp
  then have "length_v (Vector3 (- r * cos \<theta>) 0 (r * sin \<theta>)) = sqrt (r\<^sup>2)"
    unfolding length_v_def Vector3.sel by (rule arg_cong)
  then show ?thesis
    using assms by simp
qed

lemma orbit_radius_nonneg:
  fixes a e :: real
  assumes "0 < a" "0 \<le> e" "e < 1"
  shows "0 \<le> (a * (1 - e * e)) / (1 + e * cos \<theta>)"
proof -
  have "e * e < 1 * 1"
    using assms(2,3) by (intro mult_strict_mono) simp_all
  then have "0 \<le> a * (1 - e * e)"
    using assms(1) by simp
  then show ?thesis
    using orbit_denominator_pos [OF assms(2,3), of \<theta>] by simp
qed

lemma calcOrbitPoint_length:
  fixes a e \<theta> :: real
  assumes "0 < a" "0 \<le> e" "e < 1"
  shows "length_v (calcOrbitPoint a e \<theta>) = (a * (1 - e\<^sup>2)) / (1 + e * cos \<theta>)"
  using length_v_polar [OF orbit_radius_nonneg [OF assms], of \<theta> \<theta>]
  by (simp add: calcOrbitPoint_def Let_def power2_eq_square)

lemma earth_orbit_length:
  "length_v (calcOrbitPoint 20 0.25 x) = (20 * (1 - 0.25\<^sup>2)) / (1 + 0.25 * cos x)"
  by (rule calcOrbitPoint_length) simp_all

text \<open>
  C1. For a semi-major axis \<open>a > 0\<close> and an eccentricity \<open>0 \<le> e < 1\<close>, the orbit
  point at every angle \<open>\<theta>\<close> is \<open>(- r cos \<theta>, 0, r sin \<theta>)\<close> with
  \<open>r = a (1 - e\<^sup>2) / (1 + e cos \<theta>)\<close>, and its distance from the focus (the origin)
  is that \<open>r\<close>. The position the frame loop gives the Earth is this point for
  \<open>a = 20\<close>, \<open>e = 0.25\<close> at the angle elapsed time times orbital rate, and lies at
  distance \<open>r\<close> from the Sun.
\<close>

theorem orbit_position_polar:
  fixes a e \<theta> :: real
  assumes "0 < a" "0 \<le> e" "e < 1"
  shows "calcOrbitPoint a e \<theta> =
           Vector3 (- ((a * (1 - e\<^sup>2)) / (1 + e * cos \<theta>)) * cos \<theta>) 0
                   (((a * (1 - e\<^sup>2)) / (1 + e * cos \<theta>)) * sin \<theta>)
         \<and> length_v (calcOrbitPoint a e \<theta>) = (a * (1 - e\<^sup>2)) / (1 + e * cos \<theta>)
         \<and> (let t = fst (getElapsedTime now (clock app));
                 angle = t * frame_earthOrbitSpeed app
             in earthGroup_position (animate now app) = calcOrbitPoint 20 0.25 angle
                \<and> length_v (earthGroup_position (animate now app))
                    = (20 * (1 - 0.25\<^sup>2)) / (1 + 0.25 * cos angle))"
proof -
  have pt: "calcOrbitPoint a e \<theta> =
           Vector3 (- ((a * (1 - e\<^sup>2)) / (1 + e * cos \<theta>)) * cos \<theta>) 0
                   (((a * (1 - e\<^sup>2)) / (1 + e * cos \<theta>)) * sin \<theta>)"
    by (simp add: calcOrbitPoint_def Let_def power2_eq_square)
  show ?thesis
    using pt calcOrbitPoint_length [OF assms, of \<theta>]
    by (simp only: Let_def animate_fields frame_earthOrbitSpeed_def earth_orbit_length simp_thms)
qed

theorem orbit_position_polar_witness:
  "(0::real) < 20 \<and> (0::real) \<le> 0.25 \<and> (0.25::real) < 1
   \<and> length_v (calcOrbitPoint 20 0.25 0) = 15"
proof -
  have h: "(0::real) < 20" "(0::real) \<le> 0.25" "(0.25::real) < 1"
    by simp_all
  have "length_v (calcOrbitPoint 20 0.25 0) = (20 * (1 - 0.25\<^sup>2)) / (1 + 0.25 * cos 0)"
    by (rule orbit_position_polar [OF h, of 0 0 new_SolarSystemApp, THEN conjunct2, THEN conjunct1])
  also have "\<dots> = 15"
    by (simp add: power2_eq_square)
  finally show ?thesis
    by simp
qed

section \<open>Rates, landmarks and the atmosphere uniform\<close>

text \<open>
  C3. For every value of the speed slider and every elapsed time, the Earth's orbital
  rate times 365.25 is its spin rate: the frame loop derives the orbital rate as the spin
  rate divided by 365.25, so the orbital angle it uses for the position and for the
  group's turn, times 365.25, is the spin angle it gives the Earth mesh.
\<close>

theorem spin_orbit_ratio:
  "frame_earthOrbitSpeed app * 365.25 = frame_earthRotationSpeed app
   \<and> frame_earthRotationSpeed (app\<lparr>speedControls := Some (sc\<lparr>earthRotationSpeed := s\<rparr>)\<rparr>) = s
   \<and> (let t = fst (getElapsedTime now (clock app))
       in earth_rotation_y (animate now app) = t * frame_earthRotationSpeed app
          \<and> earthGroup_position (animate now app)
              = calcOrbitPoint 20 0.25 (t * frame_earthOrbitSpeed app)
          \<and> earthGroup_quaternion (animate now app)
              = rotateY (rotateZ identity_q (23.5 * pi / 180)) (t * frame_earthOrbitSpeed app)
          \<and> (t * frame_earthOrbitSpeed app) * 365.25 = earth_rotation_y (animate now app))"
proof -
  have rate: "frame_earthOrbitSpeed app * 365.25 = frame_earthRotationSpeed app"
    by (simp add: frame_earthOrbitSpeed_def)
  have slider: "frame_earthRotationSpeed (app\<lparr>speedControls := Some (sc\<lparr>earthRotationSpeed := s\<rparr>)\<rparr>) = s"
    by (simp add: frame_earthRotationSpeed_def)
  have angle: "(t * frame_earthOrbitSpeed app) * 365.25 = t * frame_earthRotationSpeed app" for t
    by (simp add: frame_earthOrbitSpeed_def)
  show ?thesis
    using rate slider angle
    by (simp only: Let_def animate_fields frame_earthOrbitSpeed_def simp_thms)
qed

lemma first_frame_time:
  "fst (getElapsedTime now (clock new_SolarSystemApp)) = 0"
  by (simp add: getElapsedTime_def getDelta_def start_def new_SolarSystemApp_def new_Clock_def Let_def)

lemma default_speed:
  "frame_earthRotationSpeed new_SolarSystemApp = 1"
  by (simp add: frame_earthRotationSpeed_def new_SolarSystemApp_def)

lemma calcOrbitPoint_0: "calcOrbitPoint 20 0.25 0 = Vector3 (- 15) 0 0"
  by (simp add: calcOrbitPoint_def Let_def)

lemma calcOrbitPoint_pi: "calcOrbitPoint 20 0.25 pi = Vector3 25 0 0"
  by (simp add: calcOrbitPoint_def Let_def)

text \<open>
  C6. With semi-major axis 20 and eccentricity 0.25 the perihelion (angle 0) lies at
  distance 15 and the aphelion (angle \<open>\<pi>\<close>) at distance 25, at the marker positions
  \<^verbatim>\<open>createEarth\<close> computes; in the first frame, with the default parameters, the
  elapsed time and the orbital angle are 0 and the Earth is at \<open>(-15, 0, 0)\<close>, on the
  negative x axis.
\<close>

theorem perihelion_aphelion_default:
  "length_v (calcOrbitPoint earthOrbitRadius earthOrbitEccentricity 0) = 15
   \<and> length_v (calcOrbitPoint earthOrbitRadius earthOrbitEccentricity pi) = 25
   \<and> calcOrbitPoint earthOrbitRadius earthOrbitEccentricity 0 = perihelionPosition
   \<and> calcOrbitPoint earthOrbitRadius earthOrbitEccentricity pi = aphelionPosition
   \<and> perihelionPosition = Vector3 (- 15) 0 0
   \<and> aphelionPosition = Vector3 25 0 0
   \<and> this_elapsedTime (animate now new_SolarSystemApp) = 0
   \<and> this_elapsedTime (animate now new_SolarSystemApp) * frame_earthOrbitSpeed new_SolarSystemApp = 0
   \<and> earthGroup_position (animate now new_SolarSystemApp) = Vector3 (- 15) 0 0"
proof -
  have len: "length_v (Vector3 (- 15) 0 0) = 15" "length_v (Vector3 25 0 0) = 25"
    by (simp_all add: length_v_def)
  have peri: "perihelionPosition = Vector3 (- 15) 0 0"
    by (simp add: perihelionPosition_def earthOrbitRadius_def earthOrbitEccentricity_def)
  have aph: "aphelionPosition = Vector3 25 0 0"
    by (simp add: aphelionPosition_def earthOrbitRadius_def earthOrbitEccentricity_def)
  have pos: "earthGroup_position (animate now new_SolarSystemApp) = Vector3 (- 15) 0 0"
    by (simp only: animate_fields first_frame_time mult_zero_left calcOrbitPoint_0)
  have t0: "this_elapsedTime (animate now new_SolarSystemApp) = 0"
    by (simp only: animate_fields first_frame_time)
  show ?thesis
    unfolding earthOrbitRadius_def earthOrbitEccentricity_def
    by (simp only: calcOrbitPoint_0 calcOrbitPoint_pi len peri aph pos t0 mult_zero_left simp_thms)
qed

text \<open>
  C9. After every frame the atmosphere's intensity uniform is 0.8, whatever the state
  before the frame and whatever value the GUI control wrote into it.
\<close>

theorem atmosphere_intensity_overwritten:
  "atmosphereIntensity (animate now app) = 0.8
   \<and> atmosphereIntensity (animate now (atmosphereIntensity_set v app)) = 0.8"
  by (simp only: animate_fields simp_thms)

section \<open>Rotations\<close>

lemma apply_norm_sq:
  fixes x y z w a b c :: real
  assumes "x * x + y * y + z * z + w * w = 1"
  shows "(a + w * (2 * (y * c - z * b)) + y * (2 * (x * b - y * a)) - z * (2 * (z * a - x * c)))\<^sup>2
       + (b + w * (2 * (z * a - x * c)) + z * (2 * (y * c - z * b)) - x * (2 * (x * b - y * a)))\<^sup>2
       + (c + w * (2 * (x * b - y * a)) + x * (2 * (z * a - x * c)) - y * (2 * (y * c - z * b)))\<^sup>2
       = a\<^sup>2 + b\<^sup>2 + c\<^sup>2"
  using assms by algebra

lemma length_v_applyQuaternion:
  assumes "qx q * qx q + qy q * qy q + qz q * qz q + qw q * qw q = 1"
  shows "length_v (applyQuaternion v q) = length_v v"
  using apply_norm_sq [OF assms, of "vx v" "vz v" "vy v"]
  unfolding length_v_def applyQuaternion_def Let_def Vector3.sel power2_eq_square
  by (rule arg_cong)

lemma applyQuaternion_multiplyScalar:
  "applyQuaternion (multiplyScalar v s) q = multiplyScalar (applyQuaternion v q) s"
  by (simp add: applyQuaternion_def multiplyScalar_def Let_def algebra_simps)

lemma normalize_v_multiplyScalar:
  assumes "length_v u = 1" "0 < s"
  shows "normalize_v (multiplyScalar u s) = u"
proof -
  have "vx u * s * (vx u * s) + vy u * s * (vy u * s) + vz u * s * (vz u * s)
        = s\<^sup>2 * (vx u * vx u + vy u * vy u + vz u * vz u)"
    by (simp add: power2_eq_square algebra_simps)
  then have "length_v (multiplyScalar u s) = s * length_v u"
    using assms(2) by (simp add: length_v_def multiplyScalar_def real_sqrt_mult)
  then have len: "length_v (multiplyScalar u s) = s"
    using assms(1) by simp
  have "normalize_v (multiplyScalar u s) = divideScalar (multiplyScalar u s) s"
    using assms(2) by (simp add: normalize_v_def len)
  also have "\<dots> = u"
    using assms(2) by (cases u) (simp add: divideScalar_def multiplyScalar_def)
  finally show ?thesis .
qed

lemma multiplyQuaternions_norm:
  fixes a b :: Quaternion
  assumes "qx a * qx a + qy a * qy a + qz a * qz a + qw a * qw a = 1"
      and "qx b * qx b + qy b * qy b + qz b * qz b + qw b * qw b = 1"
  shows "qx (multiplyQuaternions a b) * qx (multiplyQuaternions a b)
       + qy (multiplyQuaternions a b) * qy (multiplyQuaternions a b)
       + qz (multiplyQuaternions a b) * qz (multiplyQuaternions a b)
       + qw (multiplyQuaternions a b) * qw (multiplyQuaternions a b) = 1"
proof -
  have "(x1 * w2 + w1 * x2 + y1 * z2 - z1 * y2) * (x1 * w2 + w1 * x2 + y1 * z2 - z1 * y2)
      + (y1 * w2 + w1 * y2 + z1 * x2 - x1 * z2) * (y1 * w2 + w1 * y2 + z1 * x2 - x1 * z2)
      + (z1 * w2 + w1 * z2 + x1 * y2 - y1 * x2) * (z1 * w2 + w1 * z2 + x1 * y2 - y1 * x2)
      + (w1 * w2 - x1 * x2 - y1 * y2 - z1 * z2) * (w1 * w2 - x1 * x2 - y1 * y2 - z1 * z2)
      = (x1 * x1 + y1 * y1 + z1 * z1 + w1 * w1) * (x2 * x2 + y2 * y2 + z2 * z2 + w2 * w2)"
    for x1 y1 z1 w1 x2 y2 z2 w2 :: real
    by algebra
  then show ?thesis
    unfolding multiplyQuaternions_def Quaternion.sel
    by (simp only: assms mult_1)
qed

lemma setFromAxisAngle_norm:
  assumes "vx axis * vx axis + vy axis * vy axis + vz axis * vz axis = 1"
  shows "qx (setFromAxisAngle axis \<theta>) * qx (setFromAxisAngle axis \<theta>)
       + qy (setFromAxisAngle axis \<theta>) * qy (setFromAxisAngle axis \<theta>)
       + qz (setFromAxisAngle axis \<theta>) * qz (setFromAxisAngle axis \<theta>)
       + qw (setFromAxisAngle axis \<theta>) * qw (setFromAxisAngle axis \<theta>) = 1"
proof -
  have "(a * s) * (a * s) + (b * s) * (b * s) + (c * s) * (c * s) + k * k
        = (a * a + b * b + c * c) * (s * s) + k * k" for a b c s k :: real
    by algebra
  moreover have "sin (\<theta> / 2) * sin (\<theta> / 2) + cos (\<theta> / 2) * cos (\<theta> / 2) = 1"
    using sin_cos_squared_add [of "\<theta> / 2"] by (simp add: power2_eq_square)
  ultimately show ?thesis
    unfolding setFromAxisAngle_def Let_def Quaternion.sel
    by (simp only: assms mult_1)
qed

lemma identity_q_norm:
  "qx identity_q * qx identity_q + qy identity_q * qy identity_q
   + qz identity_q * qz identity_q + qw identity_q * qw identity_q = 1"
  by (simp add: identity_q_def)

lemma rotate_norm:
  assumes "qx q * qx q + qy q * qy q + qz q * qz q + qw q * qw q = 1"
  shows "qx (rotateX q \<theta>) * qx (rotateX q \<theta>) + qy (rotateX q \<theta>) * qy (rotateX q \<theta>)
         + qz (rotateX q \<theta>) * qz (rotateX q \<theta>) + qw (rotateX q \<theta>) * qw (rotateX q \<theta>) = 1"
    and "qx (rotateY q \<theta>) * qx (rotateY q \<theta>) + qy (rotateY q \<theta>) * qy (rotateY q \<theta>)
         + qz (rotateY q \<theta>) * qz (rotateY q \<theta>) + qw (rotateY q \<theta>) * qw (rotateY q \<theta>) = 1"
    and "qx (rotateZ q \<theta>) * qx (rotateZ q \<theta>) + qy (rotateZ q \<theta>) * qy (rotateZ q \<theta>)
         + qz (rotateZ q \<theta>) * qz (rotateZ q \<theta>) + qw (rotateZ q \<theta>) * qw (rotateZ q \<theta>) = 1"
  unfolding rotateX_def rotateY_def rotateZ_def rotateOnAxis_def
  by (rule multiplyQuaternions_norm [OF assms setFromAxisAngle_norm], simp)+

section \<open>The Moon\<close>

lemma moonToEarth_default:
  "normalize_v (sub (Vector3 0 0 0) (Vector3 5 0 0)) = Vector3 (- 1) 0 0"
  by (simp add: normalize_v_def sub_def length_v_def divideScalar_def multiplyScalar_def)

lemma setFromUnitVectors_default:
  "setFromUnitVectors (Vector3 0 0 1) (Vector3 (- 1) 0 0)
     = Quaternion 0 (- (1 / sqrt 2)) 0 (1 / sqrt 2)"
  by (simp add: setFromUnitVectors_def dot_def Number_EPSILON_def normalize_q_def length_q_def Let_def)

lemma applyQuaternion_default:
  "applyQuaternion (Vector3 0 0 1) (Quaternion 0 (- (1 / sqrt 2)) 0 (1 / sqrt 2)) = Vector3 (- 1) 0 0"
  by (simp add: applyQuaternion_def Let_def)

lemma earthGroup_quaternion_unit:
  "qx (earthGroup_quaternion (animate now app)) * qx (earthGroup_quaternion (animate now app))
   + qy (earthGroup_quaternion (animate now app)) * qy (earthGroup_quaternion (animate now app))
   + qz (earthGroup_quaternion (animate now app)) * qz (earthGroup_quaternion (animate now app))
   + qw (earthGroup_quaternion (animate now app)) * qw (earthGroup_quaternion (animate now app)) = 1"
  unfolding animate_fields
  by (intro rotate_norm identity_q_norm)

lemma moonGroup_quaternion_unit:
  "qx (moonGroup_quaternion (animate now app)) * qx (moonGroup_quaternion (animate now app))
   + qy (moonGroup_quaternion (animate now app)) * qy (moonGroup_quaternion (animate now app))
   + qz (moonGroup_quaternion (animate now app)) * qz (moonGroup_quaternion (animate now app))
   + qw (moonGroup_quaternion (animate now app)) * qw (moonGroup_quaternion (animate now app)) = 1"
  unfolding animate_fields
  by (intro rotate_norm identity_q_norm)

lemma sub_add_cancel_v:
  "sub p (add p (multiplyScalar u (- s))) = multiplyScalar u s"
  by (simp add: sub_def add_def multiplyScalar_def)

lemma moon_local_offset:
  "Vector3 5 0 0 = multiplyScalar (Vector3 (- 1) 0 0) (- 5)"
  by (simp add: multiplyScalar_def)

text \<open>
  C2. In every frame, for every elapsed time and speed, the Moon's quaternion is the
  shortest-arc rotation from \<open>(0, 0, 1)\<close> to the normalized vector from the Moon to the
  origin of its orbit group, which is where the Earth is; the Moon's local +Z axis turned
  by it is that vector, in the orbit group's frame and, carried through the orbit group
  and the Earth group, in scene coordinates, where it is the normalized vector from the
  Moon's position to the Earth's. The quaternion is the same in every frame, the quarter
  turn about the axis \<open>(0, -1, 0)\<close> perpendicular to both vectors, so the Moon has no
  spin of its own. The Moon's local position is the \<open>(5, 0, 0)\<close> that
  \<^verbatim>\<open>createMoon\<close> gives it; nothing writes it afterwards.
\<close>

theorem moon_tidally_locked:
  assumes "moon_position app = Vector3 5 0 0"
  shows "(let app' = animate now app;
              moonToEarth = normalize_v (sub (Vector3 0 0 0) (moon_position app'))
          in moon_quaternion app' = setFromUnitVectors (Vector3 0 0 1) moonToEarth
             \<and> applyQuaternion (Vector3 0 0 1) (moon_quaternion app') = moonToEarth
             \<and> moon_quaternion app' = Quaternion 0 (- (1 / sqrt 2)) 0 (1 / sqrt 2)
             \<and> moon_quaternion app' = setFromAxisAngle (Vector3 0 (- 1) 0) (pi / 2)
             \<and> moon_worldDirection app' (Vector3 0 0 1)
                 = normalize_v (sub (earth_worldPosition app') (moon_worldPosition app')))"
proof -
  let ?app = "animate now app"
  let ?Qe = "earthGroup_quaternion ?app" and ?Qm = "moonGroup_quaternion ?app"
  let ?u = "applyQuaternion (applyQuaternion (Vector3 (- 1) 0 0) ?Qm) ?Qe"
  have pos: "moon_position ?app = Vector3 5 0 0"
    using assms by (simp only: animate_fields)
  have q: "moon_quaternion ?app = Quaternion 0 (- (1 / sqrt 2)) 0 (1 / sqrt 2)"
    by (simp only: animate_fields assms moonToEarth_default setFromUnitVectors_default)
  have half: "sin (pi / 4) = 1 / sqrt 2" "cos (pi / 4) = 1 / sqrt 2"
    by (simp_all add: sin_45 cos_45 real_div_sqrt)
  have "setFromAxisAngle (Vector3 0 (- 1) 0) (pi / 2) = Quaternion 0 (- (1 / sqrt 2)) 0 (1 / sqrt 2)"
    by (simp add: setFromAxisAngle_def Let_def half)
  with q have axis: "moon_quaternion ?app = setFromAxisAngle (Vector3 0 (- 1) 0) (pi / 2)"
    by simp
  have q': "moon_quaternion ?app
            = setFromUnitVectors (Vector3 0 0 1)
                (normalize_v (sub (Vector3 0 0 0) (moon_position ?app)))"
    by (simp only: animate_fields)
  have local: "applyQuaternion (Vector3 0 0 1) (moon_quaternion ?app)
               = normalize_v (sub (Vector3 0 0 0) (moon_position ?app))"
    by (simp only: q pos moonToEarth_default applyQuaternion_default)
  have "length_v ?u = length_v (Vector3 (- 1) 0 0)"
    by (simp only: length_v_applyQuaternion [OF earthGroup_quaternion_unit]
        length_v_applyQuaternion [OF moonGroup_quaternion_unit])
  then have unit: "length_v ?u = 1"
    by (simp add: length_v_def)
  have dir: "moon_worldDirection ?app (Vector3 0 0 1) = ?u"
    unfolding moon_worldDirection_def by (simp only: q applyQuaternion_default)
  have "sub (earth_worldPosition ?app) (moon_worldPosition ?app) = multiplyScalar ?u 5"
    unfolding earth_worldPosition_def moon_worldPosition_def pos
    by (subst moon_local_offset)
       (simp only: applyQuaternion_multiplyScalar sub_add_cancel_v)
  then have "normalize_v (sub (earth_worldPosition ?app) (moon_worldPosition ?app)) = ?u"
    using normalize_v_multiplyScalar [OF unit, of 5] by simp
  with dir have world: "moon_worldDirection ?app (Vector3 0 0 1)
      = normalize_v (sub (earth_worldPosition ?app) (moon_worldPosition ?app))"
    by simp
  show ?thesis
    unfolding Let_def using q' local q axis world by (intro conjI)
qed

theorem moon_tidally_locked_witness:
  "moon_position new_SolarSystemApp = Vector3 5 0 0
   \<and> applyQuaternion (Vector3 0 0 1) (moon_quaternion (animate 0 new_SolarSystemApp))
       = Vector3 (- 1) 0 0
   \<and> normalize_v (sub (Vector3 0 0 0) (moon_position (animate 0 new_SolarSystemApp)))
       = Vector3 (- 1) 0 0"
proof -
  have h: "moon_position new_SolarSystemApp = Vector3 5 0 0"
    by (simp add: new_SolarSystemApp_def)
  have m: "moon_position (animate 0 new_SolarSystemApp) = Vector3 5 0 0"
    using h by (simp only: animate_fields)
  have "applyQuaternion (Vector3 0 0 1) (moon_quaternion (animate 0 new_SolarSystemApp))
        = normalize_v (sub (Vector3 0 0 0) (moon_position (animate 0 new_SolarSystemApp)))"
    using moon_tidally_locked [OF h, of 0] unfolding Let_def by (rule conjunct1 [OF conjunct2])
  then show ?thesis
    using h by (simp only: m moonToEarth_default simp_thms)
qed

section \<open>Pause and resume\<close>

lemma getElapsedTime_stopped:
  assumes "\<not> running c" "\<not> autoStart c"
  shows "getElapsedTime now c = (elapsedTime c, c)"
  using assms by (simp add: getElapsedTime_def getDelta_def)

lemma stop_fields:
  "\<not> running (stop now c)" "\<not> autoStart (stop now c)"
  "elapsedTime (stop now c) = fst (getElapsedTime now c)"
  by (simp_all add: stop_def getElapsedTime_def Let_def)

lemma pause_freezes:
  "this_elapsedTime (animate now' (pauseAnimation_onChange now True app))
     = fst (getElapsedTime now (clock app))"
  by (simp add: animate_fields pauseAnimation_onChange_def getElapsedTime_stopped stop_fields)

lemma pause_idempotent:
  "clock (pauseAnimation_onChange now' True (pauseAnimation_onChange now True app))
     = clock (pauseAnimation_onChange now True app)"
  by (simp add: pauseAnimation_onChange_def stop_def [of now'] getElapsedTime_stopped stop_fields)

lemma pause_frame_keeps_clock:
  "clock (animate now' (pauseAnimation_onChange now True app))
     = clock (pauseAnimation_onChange now True app)"
  by (simp add: animate_fields pauseAnimation_onChange_def getElapsedTime_stopped stop_fields)

text \<open>
  C4. Pausing freezes the elapsed time and pausing again changes nothing
  (\<open>pause_freezes\<close>, \<open>pause_idempotent\<close>, \<open>pause_frame_keeps_clock\<close>). Resuming does
  not continue from the frozen value: the handler calls \<^verbatim>\<open>clock.start()\<close>, which sets
  the elapsed time to 0, so the frame at the moment of resuming reads 0 from any state.
  With the clock started at wall time 0 ms, frames at 0 and 2000 ms, a pause at 2000 ms, a
  frame at 4000 ms, and a resume and a frame at 5000 ms, the elapsed time is 2 before
  the pause, 2 while paused, and 0 after resuming.
\<close>

theorem resume_restarts_elapsed_time:
  "elapsedTime (clock (pauseAnimation_onChange now False app)) = 0
   \<and> this_elapsedTime (animate now (pauseAnimation_onChange now False app)) = 0
   \<and> this_elapsedTime (animate 2000 (animate 0 new_SolarSystemApp)) = 2
   \<and> this_elapsedTime
        (animate 4000 (pauseAnimation_onChange 2000 True
           (animate 2000 (animate 0 new_SolarSystemApp)))) = 2
   \<and> this_elapsedTime
        (animate 5000 (pauseAnimation_onChange 5000 False
           (animate 4000 (pauseAnimation_onChange 2000 True
              (animate 2000 (animate 0 new_SolarSystemApp)))))) = 0"
proof -
  have r0: "elapsedTime (clock (pauseAnimation_onChange now False app)) = 0" for now app
    by (simp add: pauseAnimation_onChange_def start_def)
  have r1: "this_elapsedTime (animate now (pauseAnimation_onChange now False app)) = 0" for now app
    by (simp add: animate_fields pauseAnimation_onChange_def start_def getElapsedTime_def
        getDelta_def Let_def)
  have c1: "clock (animate 0 new_SolarSystemApp)
            = \<lparr>autoStart = True, startTime = 0, oldTime = 0, elapsedTime = 0, running = True\<rparr>"
    by (simp add: animate_fields new_SolarSystemApp_def new_Clock_def getElapsedTime_def
        getDelta_def start_def Let_def)
  have t2: "fst (getElapsedTime 2000 (clock (animate 0 new_SolarSystemApp))) = 2"
    by (simp add: c1 getElapsedTime_def getDelta_def Let_def)
  have a2: "this_elapsedTime (animate 2000 (animate 0 new_SolarSystemApp)) = 2"
    by (subst animate_fields(1)) (rule t2)
  have c2: "clock (animate 2000 (animate 0 new_SolarSystemApp))
            = \<lparr>autoStart = True, startTime = 0, oldTime = 2000, elapsedTime = 2, running = True\<rparr>"
    by (subst animate_fields(2)) (simp add: c1 getElapsedTime_def getDelta_def Let_def)
  have t3: "fst (getElapsedTime 2000 (clock (animate 2000 (animate 0 new_SolarSystemApp)))) = 2"
    by (simp add: c2 getElapsedTime_def getDelta_def Let_def)
  have a4: "this_elapsedTime
        (animate 4000 (pauseAnimation_onChange 2000 True
           (animate 2000 (animate 0 new_SolarSystemApp)))) = 2"
    by (simp only: pause_freezes t3)
  show ?thesis
    by (simp only: r0 r1 a2 a4 simp_thms)
qed

section \<open>One frame as a function of time and parameters\<close>

lemma animate_lights_closed:
  "sunDirectionalLight_position (animate now app) =
     sub (calcOrbitPoint 20 0.25
            (fst (getElapsedTime now (clock app)) * (frame_earthRotationSpeed app / 365.25)))
         (multiplyScalar
            (normalize_v
               (subVectors
                  (calcOrbitPoint 20 0.25
                     (fst (getElapsedTime now (clock app)) *
                      (frame_earthRotationSpeed app / 365.25)))
                  (Vector3 0 0 0)))
            10)"
  "secondDirectionalLight_position (animate now app) =
     sub (calcOrbitPoint 20 0.25
            (fst (getElapsedTime now (clock app)) * (frame_earthRotationSpeed app / 365.25)))
         (add (multiplyScalar
                 (multiplyScalar
                    (normalize_v
                       (subVectors
                          (calcOrbitPoint 20 0.25
                             (fst (getElapsedTime now (clock app)) *
                              (frame_earthRotationSpeed app / 365.25)))
                          (Vector3 0 0 0)))
                    10)
                 8)
              (multiplyScalar (normalize_v (Vector3 (sin (pi / 12)) (cos (pi / 12)) 0)) 2))"
  by (simp_all only: animate_lights animate_fields)

lemma frame_speed_cong:
  assumes "speedControls a = speedControls b"
  shows "frame_earthRotationSpeed a = frame_earthRotationSpeed b"
    and "frame_earthOrbitSpeed a = frame_earthOrbitSpeed b"
  using assms by (simp_all add: frame_earthRotationSpeed_def frame_earthOrbitSpeed_def)

text \<open>
  C5. Two frames evaluated from any two application states give the same transforms
  (rotation of the Sun, the Earth and the clouds, position and orientation of the Earth
  group, orientation of the Moon group and of the Moon, both light positions) whenever
  the elapsed time read from the clock and the speed parameter are the same: nothing else
  of the earlier state enters. The Moon's local position is a constant of the scene
  (\<^verbatim>\<open>createMoon\<close>), which the frame loop reads and never writes.
\<close>

theorem frame_deterministic:
  assumes "fst (getElapsedTime now (clock a)) = fst (getElapsedTime now' (clock b))"
      and "speedControls a = speedControls b"
      and "moon_position a = moon_position b"
  shows "transforms (animate now a) = transforms (animate now' b)"
  unfolding transforms_def
  by (simp only: animate_fields animate_lights_closed assms frame_speed_cong [OF assms(2)])

theorem frame_deterministic_witness:
  "fst (getElapsedTime 1000 (clock (animate 0 new_SolarSystemApp)))
     = fst (getElapsedTime 1500 (clock (atmosphereIntensity_set 1.5 (animate 500 new_SolarSystemApp))))
   \<and> speedControls (animate 0 new_SolarSystemApp)
       = speedControls (atmosphereIntensity_set 1.5 (animate 500 new_SolarSystemApp))
   \<and> moon_position (animate 0 new_SolarSystemApp)
       = moon_position (atmosphereIntensity_set 1.5 (animate 500 new_SolarSystemApp))
   \<and> clock (animate 0 new_SolarSystemApp)
       \<noteq> clock (atmosphereIntensity_set 1.5 (animate 500 new_SolarSystemApp))
   \<and> transforms (animate 1000 (animate 0 new_SolarSystemApp))
       = transforms (animate 1500 (atmosphereIntensity_set 1.5 (animate 500 new_SolarSystemApp)))"
proof -
  let ?a = "animate 0 new_SolarSystemApp"
  let ?b = "atmosphereIntensity_set 1.5 (animate 500 new_SolarSystemApp)"
  have ca: "clock ?a
            = \<lparr>autoStart = True, startTime = 0, oldTime = 0, elapsedTime = 0, running = True\<rparr>"
    by (simp add: animate_fields new_SolarSystemApp_def new_Clock_def getElapsedTime_def
        getDelta_def start_def Let_def)
  have cb: "clock ?b
            = \<lparr>autoStart = True, startTime = 500, oldTime = 500, elapsedTime = 0, running = True\<rparr>"
    by (simp add: atmosphereIntensity_set_def animate_fields new_SolarSystemApp_def new_Clock_def
        getElapsedTime_def getDelta_def start_def Let_def)
  have h1: "fst (getElapsedTime 1000 (clock ?a)) = fst (getElapsedTime 1500 (clock ?b))"
    by (simp only: ca cb) (simp add: getElapsedTime_def getDelta_def Let_def)
  have h2: "speedControls ?a = speedControls ?b"
    by (simp add: atmosphereIntensity_set_def animate_fields)
  have h3: "moon_position ?a = moon_position ?b"
    by (simp add: atmosphereIntensity_set_def animate_fields)
  have ne: "clock ?a \<noteq> clock ?b"
    by (simp only: ca cb) simp
  show ?thesis
    using h1 h2 h3 ne frame_deterministic [OF h1 h2 h3] by (intro conjI)
qed

section \<open>The lights\<close>

lemma subVectors_origin: "subVectors p (Vector3 0 0 0) = p"
  by (cases p) (simp add: subVectors_def)

lemma earth_orbit_length_pos: "0 < length_v (calcOrbitPoint 20 0.25 x)"
proof -
  have "0 < 1 + 0.25 * cos x"
    by (rule orbit_denominator_pos) simp_all
  then have "0 < (20 * (1 - 0.25\<^sup>2)) / (1 + 0.25 * cos x)"
    by (simp add: power2_eq_square)
  then show ?thesis
    by (simp only: earth_orbit_length)
qed

lemma offsetVector_unit:
  "normalize_v (Vector3 (sin a) (cos a) 0) = Vector3 (sin a) (cos a) 0"
proof -
  have "sin a * sin a + cos a * cos a + 0 * 0 = 1"
    using sin_cos_squared_add [of a] by (simp add: power2_eq_square)
  then have "length_v (Vector3 (sin a) (cos a) 0) = 1"
    by (simp add: length_v_def)
  then show ?thesis
    by (simp add: normalize_v_def divideScalar_def multiplyScalar_def)
qed

lemma sub_sub_cancel_v: "sub p (sub p w) = w"
  by (cases p, cases w) (simp add: sub_def)

lemma multiplyScalar_twice: "multiplyScalar (multiplyScalar v s) k = multiplyScalar v (s * k)"
  by (simp add: multiplyScalar_def)

lemma normalize_v_as_scale:
  assumes "0 < length_v p"
  shows "multiplyScalar (normalize_v p) s = multiplyScalar p (s / length_v p)"
  using assms by (simp add: normalize_v_def divideScalar_def multiplyScalar_def)

text \<open>
  C8 (as the code has it). In every frame the first directional light is placed at the
  Earth group's position minus 10 times the normalized vector from the Sun (the origin)
  to that position, and both lights are aimed at the Earth group; the Earth is never at
  the Sun, so the first light shines along a positive multiple of the vector from the Sun
  to the Earth. The second light is placed at the Earth group's position minus a positive
  multiple of the same unit vector and minus twice the fixed vector
  \<open>(sin (\<pi>/12), cos (\<pi>/12), 0)\<close>: the angle \<open>\<pi>/12\<close> is the tilt of that fixed vector
  from the y axis. Both positions are functions of the Earth's position in this frame
  alone.
\<close>

theorem light_positions:
  "sunDirectionalLight_position (animate now app)
     = sub (earthGroup_position (animate now app))
           (multiplyScalar
              (normalize_v (subVectors (earthGroup_position (animate now app)) (Vector3 0 0 0)))
              10)
   \<and> sunDirectionalLight_target (animate now app) = EarthGroupTarget
   \<and> secondDirectionalLight_target (animate now app) = EarthGroupTarget
   \<and> 0 < length_v (earthGroup_position (animate now app))
   \<and> sunDirectionalLight_direction (animate now app)
       = multiplyScalar (subVectors (earthGroup_position (animate now app)) (Vector3 0 0 0))
           (10 / length_v (earthGroup_position (animate now app)))
   \<and> (\<exists>k. 0 < k
          \<and> secondDirectionalLight_position (animate now app)
              = sub (earthGroup_position (animate now app))
                    (add (multiplyScalar
                            (normalize_v
                               (subVectors (earthGroup_position (animate now app))
                                  (Vector3 0 0 0)))
                            k)
                         (multiplyScalar (Vector3 (sin (pi / 12)) (cos (pi / 12)) 0) 2)))"
proof -
  let ?P = "earthGroup_position (animate now app)"
  have pos: "0 < length_v ?P"
    by (simp only: animate_fields earth_orbit_length_pos)
  have dir: "sunDirectionalLight_direction (animate now app)
             = multiplyScalar (subVectors ?P (Vector3 0 0 0)) (10 / length_v ?P)"
    unfolding sunDirectionalLight_direction_def
    by (simp only: animate_lights sub_sub_cancel_v subVectors_origin normalize_v_as_scale [OF pos])
  have snd: "secondDirectionalLight_position (animate now app)
              = sub ?P (add (multiplyScalar (normalize_v (subVectors ?P (Vector3 0 0 0))) (10 * 8))
                            (multiplyScalar (Vector3 (sin (pi / 12)) (cos (pi / 12)) 0) 2))"
    by (simp only: animate_lights multiplyScalar_twice offsetVector_unit)
  have ex: "\<exists>k. 0 < k
          \<and> secondDirectionalLight_position (animate now app)
              = sub ?P (add (multiplyScalar (normalize_v (subVectors ?P (Vector3 0 0 0))) k)
                            (multiplyScalar (Vector3 (sin (pi / 12)) (cos (pi / 12)) 0) 2))"
    by (rule exI [of _ "10 * 8"]) (simp only: snd, simp)
  show ?thesis
    using animate_lights(1) [of now app] animate_fields(10,11) [of now app] pos dir ex
    by (intro conjI)
qed

lemma sin_cos_pi_12:
  "sin (pi / 12) * cos (pi / 12) = 1 / 4" "0 < cos (pi / 12)" "0 < sin (pi / 12)"
proof -
  have "sin (2 * (pi / 12)) = 2 * sin (pi / 12) * cos (pi / 12)"
    by (rule sin_double)
  then show "sin (pi / 12) * cos (pi / 12) = 1 / 4"
    using sin_30 by simp
  show "0 < cos (pi / 12)"
    by (rule cos_gt_zero_pi) (use pi_gt_zero in simp_all)
  show "0 < sin (pi / 12)"
    by (rule sin_gt_zero) (use pi_gt_zero in simp_all)
qed

lemma first_frame_lights:
  "sunDirectionalLight_direction (animate 0 new_SolarSystemApp) = Vector3 (- 10) 0 0"
  "secondDirectionalLight_direction (animate 0 new_SolarSystemApp)
     = Vector3 (2 * sin (pi / 12) - 80) (2 * cos (pi / 12)) 0"
proof -
  have P: "earthGroup_position (animate 0 new_SolarSystemApp) = Vector3 (- 15) 0 0"
    by (simp only: animate_fields first_frame_time mult_zero_left calcOrbitPoint_0)
  have u: "normalize_v (subVectors (Vector3 (- 15) 0 0) (Vector3 0 0 0)) = Vector3 (- 1) 0 0"
    by (simp add: normalize_v_def subVectors_def length_v_def divideScalar_def multiplyScalar_def)
  show "sunDirectionalLight_direction (animate 0 new_SolarSystemApp) = Vector3 (- 10) 0 0"
    unfolding sunDirectionalLight_direction_def
    by (simp only: animate_lights P u sub_sub_cancel_v) (simp add: multiplyScalar_def)
  show "secondDirectionalLight_direction (animate 0 new_SolarSystemApp)
     = Vector3 (2 * sin (pi / 12) - 80) (2 * cos (pi / 12)) 0"
    unfolding secondDirectionalLight_direction_def
    by (simp only: animate_lights P u sub_sub_cancel_v offsetVector_unit)
       (simp add: multiplyScalar_def add_def)
qed

text \<open>
  C8 (as stated). The second light is not offset from the first by the angle
  \<open>\<pi>/12\<close>: in the first frame the first light shines along \<open>(-10, 0, 0)\<close>, the second
  along \<open>(2 sin (\<pi>/12) - 80, 2 cos (\<pi>/12), 0)\<close>, and the cosine of the angle between
  them is not \<open>cos (\<pi>/12)\<close>.
\<close>

theorem second_light_angle_counterexample:
  "dot (sunDirectionalLight_direction (animate 0 new_SolarSystemApp))
       (secondDirectionalLight_direction (animate 0 new_SolarSystemApp))
   \<noteq> length_v (sunDirectionalLight_direction (animate 0 new_SolarSystemApp))
     * length_v (secondDirectionalLight_direction (animate 0 new_SolarSystemApp))
     * cos (pi / 12)"
proof
  let ?s = "sin (pi / 12)" and ?c = "cos (pi / 12)"
  let ?Q = "(2 * ?s - 80) * (2 * ?s - 80) + (2 * ?c) * (2 * ?c) + 0 * 0"
  assume "dot (sunDirectionalLight_direction (animate 0 new_SolarSystemApp))
       (secondDirectionalLight_direction (animate 0 new_SolarSystemApp))
   = length_v (sunDirectionalLight_direction (animate 0 new_SolarSystemApp))
     * length_v (secondDirectionalLight_direction (animate 0 new_SolarSystemApp))
     * cos (pi / 12)"
  then have "800 - 20 * ?s = 10 * sqrt ?Q * ?c"
    by (simp add: first_frame_lights dot_def length_v_def)
  then have e: "80 - 2 * ?s = sqrt ?Q * ?c"
    by simp
  have Q: "0 \<le> ?Q"
    by simp
  have "(80 - 2 * ?s)\<^sup>2 = (sqrt ?Q)\<^sup>2 * ?c\<^sup>2"
    by (simp only: e power_mult_distrib)
  also have "\<dots> = ?Q * ?c\<^sup>2"
    using Q by (simp only: real_sqrt_pow2)
  finally have eq: "(80 - 2 * ?s)\<^sup>2 = ?Q * ?c\<^sup>2" .
  have sc: "?s * ?c = 1 / 4" and c0: "0 < ?c" and s0: "0 < ?s"
    by (rule sin_cos_pi_12)+
  have c1: "?c \<le> 1" and s1: "?s \<le> 1"
    by simp_all
  have gen: "((80 - 2 * s) * s)\<^sup>2 = 4 * (c\<^sup>2)\<^sup>2"
    if "s\<^sup>2 + c\<^sup>2 = 1"
      and "(80 - 2 * s)\<^sup>2 = ((2 * s - 80) * (2 * s - 80) + 2 * c * (2 * c) + 0 * 0) * c\<^sup>2"
    for s c :: real
    using that by algebra
  have key: "((80 - 2 * ?s) * ?s)\<^sup>2 = 4 * (?c\<^sup>2)\<^sup>2"
    by (rule gen [OF sin_cos_squared_add eq])
  have "1 / 4 = ?s * ?c"
    using sc by simp
  also have "\<dots> \<le> ?s * 1"
    using s0 c1 by (intro mult_left_mono) simp_all
  finally have s4: "1 / 4 \<le> ?s"
    by simp
  have b78: "78 \<le> 80 - 2 * ?s"
    using s1 by simp
  then have b0: "0 \<le> 80 - 2 * ?s"
    by linarith
  have "78 * (1 / 4) \<le> (80 - 2 * ?s) * ?s"
    by (rule mult_mono [OF b78 s4 b0]) simp
  then have "(78 * (1 / 4))\<^sup>2 \<le> ((80 - 2 * ?s) * ?s)\<^sup>2"
    by (intro power_mono) simp_all
  moreover have "(?c\<^sup>2)\<^sup>2 \<le> 1"
    using c0 c1 by (simp add: power_le_one)
  ultimately show False
    using key by (simp add: power2_eq_square)
qed

section \<open>The inclination handler and the frame loop\<close>

lemma rotateX_rotateY_identity:
  "rotateX (rotateY identity_q a) b
     = Quaternion (cos (a / 2) * sin (b / 2)) (sin (a / 2) * cos (b / 2))
                  (- (sin (a / 2) * sin (b / 2))) (cos (a / 2) * cos (b / 2))"
  by (simp add: rotateX_def rotateY_def rotateOnAxis_def multiplyQuaternions_def
      setFromAxisAngle_def identity_q_def Let_def)

lemma rotation_entries:
  fixes sa ca sb cb :: real
  assumes "sa\<^sup>2 + ca\<^sup>2 = 1" "sb\<^sup>2 + cb\<^sup>2 = 1"
  shows "1 - ((sa * cb) * (sa * cb + sa * cb) + (- (sa * sb)) * (- (sa * sb) + - (sa * sb)))
           = 1 - 2 * sa\<^sup>2"
    and "(ca * sb) * (sa * cb + sa * cb) + (ca * cb) * (- (sa * sb) + - (sa * sb)) = 0"
    and "(ca * sb) * (- (sa * sb) + - (sa * sb)) - (ca * cb) * (sa * cb + sa * cb)
           = - (2 * sa * ca)"
    and "(ca * sb) * (sa * cb + sa * cb) - (ca * cb) * (- (sa * sb) + - (sa * sb))
           = (2 * sa * ca) * (2 * sb * cb)"
    and "1 - ((ca * sb) * (ca * sb + ca * sb) + (- (sa * sb)) * (- (sa * sb) + - (sa * sb)))
           = 1 - 2 * sb\<^sup>2"
    and "(sa * cb) * (- (sa * sb) + - (sa * sb)) + (ca * cb) * (ca * sb + ca * sb)
           = (1 - 2 * sa\<^sup>2) * (2 * sb * cb)"
    and "(ca * sb) * (- (sa * sb) + - (sa * sb)) + (ca * cb) * (sa * cb + sa * cb)
           = (2 * sa * ca) * (1 - 2 * sb\<^sup>2)"
    and "(sa * cb) * (- (sa * sb) + - (sa * sb)) - (ca * cb) * (ca * sb + ca * sb)
           = - (2 * sb * cb)"
    and "1 - ((ca * sb) * (ca * sb + ca * sb) + (sa * cb) * (sa * cb + sa * cb))
           = (1 - 2 * sa\<^sup>2) * (1 - 2 * sb\<^sup>2)"
  using assms by - algebra+

lemma double_half:
  fixes a :: real
  shows "sin a = 2 * sin (a / 2) * cos (a / 2)" "cos a = 1 - 2 * (sin (a / 2))\<^sup>2"
  using sin_double [of "a / 2"] cos_double_sin [of "a / 2"] by simp_all

lemma compose_rotateX_rotateY:
  "compose (Vector3 0 0 0) (rotateX (rotateY identity_q a) b) (Vector3 1 1 1)
     = [cos a, 0, - sin a, 0,
        sin a * sin b, cos b, cos a * sin b, 0,
        sin a * cos b, - sin b, cos a * cos b, 0,
        0, 0, 0, 1]"
  unfolding rotateX_rotateY_identity compose_def Let_def Quaternion.sel Vector3.sel mult_1_right
    double_half [of a] double_half [of b]
  by (simp only: rotation_entries [OF sin_cos_squared_add sin_cos_squared_add])

lemma rotation_matrix_eq_iff:
  fixes a b a' b' :: real
  shows "[cos a, 0, - sin a, 0,
          sin a * sin b, cos b, cos a * sin b, 0,
          sin a * cos b, - sin b, cos a * cos b, 0,
          0, 0, 0, 1]
       = [cos a', 0, - sin a', 0,
          sin a' * sin b', cos b', cos a' * sin b', 0,
          sin a' * cos b', - sin b', cos a' * cos b', 0,
          0, 0, 0, 1]
     \<longleftrightarrow> (sin a = sin a' \<and> cos a = cos a') \<and> (sin b = sin b' \<and> cos b = cos b')"
  by auto

lemma moonGroup_matrix_handler:
  "moonGroup_matrix (moonOrbitInclination_onChange v app)
     = compose (Vector3 0 0 0)
         (rotateX (rotateY identity_q (this_elapsedTime app * (0.2 * (365.25 / 27.32))))
                  (v * pi / 180))
         (Vector3 1 1 1)"
  unfolding moonGroup_matrix_def
  by (cases app)
     (simp only: moonOrbitInclination_onChange_def Let_def App.select_convs App.update_convs)

lemma moonGroup_matrix_frame:
  "moonGroup_matrix (animate_moon app)
     = compose (Vector3 0 0 0)
         (rotateX (rotateY identity_q
                     (this_elapsedTime app * (frame_earthOrbitSpeed app * (365.25 / 27.32))))
                  (5.1 * pi / 180))
         (Vector3 1 1 1)"
  unfolding moonGroup_matrix_def by (simp only: animate_moon_writes)

lemma frame_orbit_speed_73:
  "frame_earthOrbitSpeed app = 0.2 \<longleftrightarrow> frame_earthRotationSpeed app = 73.05"
  by (simp add: frame_earthOrbitSpeed_def mult.commute)

lemma handler_matches_frame_iff:
  "moonGroup_matrix (moonOrbitInclination_onChange v app) = moonGroup_matrix (animate_moon app)
   \<longleftrightarrow>
     (\<exists>n::int. this_elapsedTime app * (0.2 * (365.25 / 27.32))
                = this_elapsedTime app * (frame_earthOrbitSpeed app * (365.25 / 27.32))
                  + 2 * pi * n)
     \<and> (\<exists>k::int. v * pi / 180 = 5.1 * pi / 180 + 2 * pi * k)"
  unfolding moonGroup_matrix_handler moonGroup_matrix_frame compose_rotateX_rotateY
    rotation_matrix_eq_iff sin_cos_eq_iff ..

text \<open>
  C10 (as the code has it). The inclination handler turns the Moon group by the elapsed
  time times the Moon rate of the fixed Earth orbital rate 0.2, which is the frame loop's
  rate exactly when the speed parameter is 73.05, and tilts it by the value it is given;
  the frame loop turns the group by the elapsed time times the Moon rate of the current
  speed and tilts it by its own fixed 5.1 degrees. For the same elapsed time the two
  transform matrices are equal exactly when the two turn angles differ by a multiple of
  \<open>2\<pi>\<close> and the given inclination is 5.1 degrees up to full turns.
\<close>

theorem inclination_handler_matches_frame_iff:
  "(frame_earthOrbitSpeed app = 0.2 \<longleftrightarrow> frame_earthRotationSpeed app = 73.05)
   \<and> (moonGroup_matrix (moonOrbitInclination_onChange v app) = moonGroup_matrix (animate_moon app)
       \<longleftrightarrow>
       (\<exists>n::int. this_elapsedTime app * (0.2 * (365.25 / 27.32))
                  = this_elapsedTime app * (frame_earthOrbitSpeed app * (365.25 / 27.32))
                    + 2 * pi * n)
       \<and> (\<exists>k::int. v * pi / 180 = 5.1 * pi / 180 + 2 * pi * k))"
  using frame_orbit_speed_73 [of app] handler_matches_frame_iff [of v app] by (rule conjI)

theorem inclination_handler_matches_frame_iff_witness:
  "moonGroup_matrix
     (moonOrbitInclination_onChange 5.1
        (new_SolarSystemApp\<lparr>speedControls :=
           Some \<lparr>earthRotationSpeed = 73.05, pauseAnimation = False\<rparr>\<rparr>))
   = moonGroup_matrix
       (animate_moon
          (new_SolarSystemApp\<lparr>speedControls :=
             Some \<lparr>earthRotationSpeed = 73.05, pauseAnimation = False\<rparr>\<rparr>))"
proof -
  let ?app = "new_SolarSystemApp\<lparr>speedControls :=
             Some \<lparr>earthRotationSpeed = 73.05, pauseAnimation = False\<rparr>\<rparr>"
  have "frame_earthRotationSpeed ?app = 73.05"
    by (simp add: frame_earthRotationSpeed_def)
  then have s: "frame_earthOrbitSpeed ?app = 0.2"
    by (simp only: frame_orbit_speed_73)
  have 1: "\<exists>n::int. this_elapsedTime ?app * (0.2 * (365.25 / 27.32))
                = this_elapsedTime ?app * (frame_earthOrbitSpeed ?app * (365.25 / 27.32))
                  + 2 * pi * n"
    unfolding s by (rule exI [of _ 0]) simp
  have 2: "\<exists>k::int. 5.1 * pi / 180 = 5.1 * pi / 180 + 2 * pi * k"
    by (rule exI [of _ 0]) simp
  show ?thesis
    using inclination_handler_matches_frame_iff [of ?app "5.1"] 1 2 by blast
qed

text \<open>
  C10 (as stated). With the speed parameter at 73.05 the handler and the frame loop still
  differ when the inclination is not the frame loop's 5.1: at elapsed time 0 and
  inclination 0 the handler's matrix is not the frame loop's.
\<close>

theorem inclination_handler_counterexample:
  "frame_earthRotationSpeed
     (new_SolarSystemApp\<lparr>speedControls :=
        Some \<lparr>earthRotationSpeed = 73.05, pauseAnimation = False\<rparr>\<rparr>) = 73.05
   \<and> moonGroup_matrix
        (moonOrbitInclination_onChange 0
           (new_SolarSystemApp\<lparr>speedControls :=
              Some \<lparr>earthRotationSpeed = 73.05, pauseAnimation = False\<rparr>\<rparr>))
     \<noteq> moonGroup_matrix
         (animate_moon
            (new_SolarSystemApp\<lparr>speedControls :=
               Some \<lparr>earthRotationSpeed = 73.05, pauseAnimation = False\<rparr>\<rparr>))"
proof -
  let ?app = "new_SolarSystemApp\<lparr>speedControls :=
             Some \<lparr>earthRotationSpeed = 73.05, pauseAnimation = False\<rparr>\<rparr>"
  have speed: "frame_earthRotationSpeed ?app = 73.05"
    by (simp add: frame_earthRotationSpeed_def)
  have "0 < 5.1 * pi / 180" "5.1 * pi / 180 < pi"
    using pi_gt_zero by simp_all
  then have "0 < sin (5.1 * pi / 180)"
    by (rule sin_gt_zero)
  then have ne: "sin (0 * pi / 180) \<noteq> sin (5.1 * pi / 180)"
    by simp
  have "moonGroup_matrix (moonOrbitInclination_onChange 0 ?app)
        \<noteq> moonGroup_matrix (animate_moon ?app)"
    unfolding moonGroup_matrix_handler moonGroup_matrix_frame compose_rotateX_rotateY
      rotation_matrix_eq_iff
    using ne by blast
  with speed show ?thesis
    by (rule conjI)
qed

section \<open>Parameter writes\<close>

lemma clamp_range:
  assumes "ctl_min c \<le> ctl_max c"
  shows "ctl_min c \<le> clamp c x" "clamp c x \<le> ctl_max c"
  using assms by (simp_all add: clamp_def Let_def)

lemma snap_unit_tenth:
  assumes "ctl_min c = 0" "ctl_step c = 0.1"
  shows "snap c v = of_int \<lfloor>v * 10 + 1 / 2\<rfloor> / 10"
  by (simp only: snap_def Math_round_def Let_def assms) simp

lemma snap_above:
  assumes "ctl_min c = 0" "ctl_step c = 0.1" "of_int k / 10 < v"
  shows "of_int k / 10 \<le> snap c v"
proof -
  have "of_int k \<le> v * 10 + 1 / 2"
    using assms(3) by simp
  then have "k \<le> \<lfloor>v * 10 + 1 / 2\<rfloor>"
    by (simp only: le_floor_iff)
  then have "(of_int k :: real) \<le> of_int \<lfloor>v * 10 + 1 / 2\<rfloor>"
    by simp
  then show ?thesis
    unfolding snap_unit_tenth [OF assms(1,2)] by (simp add: divide_right_mono)
qed

lemma snap_below:
  assumes "ctl_min c = 0" "ctl_step c = 0.1" "v < 0"
  shows "snap c v \<le> 0"
proof -
  have "v * 10 + 1 / 2 < of_int 1"
    using assms(3) by simp
  then have "\<lfloor>v * 10 + 1 / 2\<rfloor> < 1"
    by (simp only: floor_less_iff)
  then have "(of_int \<lfloor>v * 10 + 1 / 2\<rfloor> :: real) \<le> 0"
    by simp
  then show ?thesis
    unfolding snap_unit_tenth [OF assms(1,2)] by simp
qed

lemma clamp_snap_above:
  assumes "ctl_min c = 0" "ctl_step c = 0.1" "ctl_max c = of_int k / 10" "0 \<le> k"
    and "ctl_max c < v"
  shows "clamp c (snap c v) = ctl_max c"
proof -
  have "ctl_max c \<le> snap c v"
    using snap_above [OF assms(1,2), of k v] assms(3,5) by simp
  moreover have "0 \<le> ctl_max c"
    using assms(3,4) by simp
  ultimately show ?thesis
    using assms(1) by (simp add: clamp_def Let_def)
qed

lemma clamp_snap_below:
  assumes "ctl_min c = 0" "ctl_step c = 0.1" "0 \<le> ctl_max c" "v < 0"
  shows "clamp c (snap c v) = 0"
  using snap_below [OF assms(1,2,4)] assms(1,3) by (simp add: clamp_def Let_def)

lemma inclination_control:
  "ctl_min moonOrbitInclinationControl = 0" "ctl_step moonOrbitInclinationControl = 0.1"
  "ctl_max moonOrbitInclinationControl = 10"
  by (simp_all add: moonOrbitInclinationControl_def)

lemma speed_control:
  "ctl_min speedRotationControl = 0" "ctl_step speedRotationControl = 0.1"
  "ctl_max speedRotationControl = 200"
  by (simp_all add: speedRotationControl_def)

lemma inclination_input_stored:
  "moonOrbitInclination (moonOrbitInclination_input v app)
     = clamp moonOrbitInclinationControl (snap moonOrbitInclinationControl v)"
  by (simp add: moonOrbitInclination_input_def moonOrbitInclination_onChange_def Let_def)

lemma inclination_input_orientation:
  assumes "moonOrbitInclination app
           \<noteq> clamp moonOrbitInclinationControl (snap moonOrbitInclinationControl v)"
  shows "moonGroup_quaternion (moonOrbitInclination_input v app)
     = rotateX (rotateY identity_q (this_elapsedTime app * (0.2 * (365.25 / 27.32))))
               (clamp moonOrbitInclinationControl (snap moonOrbitInclinationControl v) * pi / 180)"
proof -
  let ?stored = "clamp moonOrbitInclinationControl (snap moonOrbitInclinationControl v)"
  have "moonOrbitInclination_input v app
        = moonOrbitInclination_onChange ?stored (app\<lparr>moonOrbitInclination := ?stored\<rparr>)"
    using assms by (simp add: moonOrbitInclination_input_def Let_def)
  then show ?thesis
    by (cases app)
       (simp only: moonOrbitInclination_onChange_def Let_def App.select_convs App.update_convs)
qed

lemma speed_input_stored:
  "frame_earthRotationSpeed (speedRotationControl_input v (app\<lparr>speedControls := Some sc\<rparr>))
     = clamp speedRotationControl (snap speedRotationControl v)"
  by (simp add: speedRotationControl_input_def frame_earthRotationSpeed_def Let_def)

lemma inclination_bounds:
  "0 \<le> clamp moonOrbitInclinationControl (snap moonOrbitInclinationControl v)"
  "clamp moonOrbitInclinationControl (snap moonOrbitInclinationControl v) \<le> 10"
  using clamp_range [of moonOrbitInclinationControl] by (simp_all add: inclination_control)

lemma speed_bounds:
  "0 \<le> clamp speedRotationControl (snap speedRotationControl v)"
  "clamp speedRotationControl (snap speedRotationControl v) \<le> 200"
  using clamp_range [of speedRotationControl] by (simp_all add: speed_control)

lemma inclination_out_of_range:
  "10 < v \<Longrightarrow> clamp moonOrbitInclinationControl (snap moonOrbitInclinationControl v) = 10"
  "v < 0 \<Longrightarrow> clamp moonOrbitInclinationControl (snap moonOrbitInclinationControl v) = 0"
  using clamp_snap_above [of moonOrbitInclinationControl 100 v]
    clamp_snap_below [of moonOrbitInclinationControl v]
  by (simp_all add: inclination_control)

lemma speed_out_of_range:
  "200 < v \<Longrightarrow> clamp speedRotationControl (snap speedRotationControl v) = 200"
  "v < 0 \<Longrightarrow> clamp speedRotationControl (snap speedRotationControl v) = 0"
  using clamp_snap_above [of speedRotationControl 2000 v]
    clamp_snap_below [of speedRotationControl v]
  by (simp_all add: speed_control)

lemma speed_input_keeps_clock:
  "clock (speedRotationControl_input v app) = clock app"
  by (simp add: speedRotationControl_input_def Let_def split: option.split)

lemma speed_input_frame:
  "earth_rotation_y (animate now (speedRotationControl_input v (app\<lparr>speedControls := Some sc\<rparr>)))
     = fst (getElapsedTime now (clock app)) * clamp speedRotationControl (snap speedRotationControl v)"
proof -
  have "clock (speedRotationControl_input v (app\<lparr>speedControls := Some sc\<rparr>)) = clock app"
    by (simp add: speed_input_keeps_clock)
  then show ?thesis
    by (simp only: animate_fields speed_input_stored)
qed

lemma resetSpeeds_stores_1:
  "frame_earthRotationSpeed (resetSpeeds (app\<lparr>speedControls := Some sc\<rparr>)) = 1"
  by (simp add: resetSpeeds_def frame_earthRotationSpeed_def)

text \<open>
  C7 (as the code has it). Entering a value in a number control never fails; the program
  has no error for it. The value is snapped to the step 0.1 and clamped into the
  control's range, 0 to 10 for the Moon's inclination and 0 to 200 for the Earth's
  rotation speed, and the result is stored in place of the value held before: a value
  above the range stores the upper bound and a value below it stores 0. When the stored
  inclination changes, the handler turns the Moon group about y by elapsed time times
  \<open>0.2 * (365.25 / 27.32)\<close> and tilts it about x by the stored number of degrees. The
  frame loop spins the Earth by elapsed time times the stored speed, and
  \<^verbatim>\<open>resetSpeeds\<close> stores 1.
\<close>

theorem parameter_input_clamped:
  "moonOrbitInclination (moonOrbitInclination_input v app)
     = clamp moonOrbitInclinationControl (snap moonOrbitInclinationControl v)
   \<and> 0 \<le> clamp moonOrbitInclinationControl (snap moonOrbitInclinationControl v)
   \<and> clamp moonOrbitInclinationControl (snap moonOrbitInclinationControl v) \<le> 10
   \<and> (10 < v \<longrightarrow> clamp moonOrbitInclinationControl (snap moonOrbitInclinationControl v) = 10)
   \<and> (v < 0 \<longrightarrow> clamp moonOrbitInclinationControl (snap moonOrbitInclinationControl v) = 0)
   \<and> (moonOrbitInclination app
         \<noteq> clamp moonOrbitInclinationControl (snap moonOrbitInclinationControl v)
       \<longrightarrow> moonGroup_quaternion (moonOrbitInclination_input v app)
           = rotateX (rotateY identity_q (this_elapsedTime app * (0.2 * (365.25 / 27.32))))
               (clamp moonOrbitInclinationControl (snap moonOrbitInclinationControl v)
                * pi / 180))
   \<and> frame_earthRotationSpeed
         (speedRotationControl_input v (app\<lparr>speedControls := Some sc\<rparr>))
       = clamp speedRotationControl (snap speedRotationControl v)
   \<and> 0 \<le> clamp speedRotationControl (snap speedRotationControl v)
   \<and> clamp speedRotationControl (snap speedRotationControl v) \<le> 200
   \<and> (200 < v \<longrightarrow> clamp speedRotationControl (snap speedRotationControl v) = 200)
   \<and> (v < 0 \<longrightarrow> clamp speedRotationControl (snap speedRotationControl v) = 0)
   \<and> earth_rotation_y
         (animate now (speedRotationControl_input v (app\<lparr>speedControls := Some sc\<rparr>)))
       = fst (getElapsedTime now (clock app))
         * clamp speedRotationControl (snap speedRotationControl v)
   \<and> frame_earthRotationSpeed (resetSpeeds (app\<lparr>speedControls := Some sc\<rparr>)) = 1"
  using inclination_input_stored [of v app] inclination_bounds [of v]
    inclination_out_of_range [of v] inclination_input_orientation [of app v]
    speed_input_stored [of v sc app] speed_bounds [of v] speed_out_of_range [of v]
    speed_input_frame [of now v sc app] resetSpeeds_stores_1 [of sc app]
  by (intro conjI impI)

theorem parameter_input_clamped_witness:
  "(10::real) < 15
   \<and> moonOrbitInclination (moonOrbitInclination_input 15 new_SolarSystemApp) = 10
   \<and> (- 3::real) < 0
   \<and> moonOrbitInclination (moonOrbitInclination_input (- 3) new_SolarSystemApp) = 0
   \<and> (200::real) < 250
   \<and> frame_earthRotationSpeed
         (speedRotationControl_input 250
            (new_SolarSystemApp\<lparr>speedControls :=
               Some \<lparr>earthRotationSpeed = 1, pauseAnimation = False\<rparr>\<rparr>)) = 200
   \<and> moonOrbitInclination new_SolarSystemApp \<noteq> 10
   \<and> moonGroup_quaternion (moonOrbitInclination_input 15 new_SolarSystemApp)
       = rotateX (rotateY identity_q (this_elapsedTime new_SolarSystemApp * (0.2 * (365.25 / 27.32))))
           (10 * pi / 180)"
proof -
  let ?sc = "\<lparr>earthRotationSpeed = 1, pauseAnimation = False\<rparr>"
  note hi = parameter_input_clamped [of 15 new_SolarSystemApp ?sc 0]
  note lo = parameter_input_clamped [of "- 3" new_SolarSystemApp ?sc 0]
  note sp = parameter_input_clamped [of 250 new_SolarSystemApp ?sc 0]
  have c15: "clamp moonOrbitInclinationControl (snap moonOrbitInclinationControl 15) = 10"
    using hi by simp
  have s15: "moonOrbitInclination (moonOrbitInclination_input 15 new_SolarSystemApp) = 10"
    using hi c15 by simp
  have cm3: "clamp moonOrbitInclinationControl (snap moonOrbitInclinationControl (- 3)) = 0"
    using lo by simp
  have sm3: "moonOrbitInclination (moonOrbitInclination_input (- 3) new_SolarSystemApp) = 0"
    using lo cm3 by simp
  have c250: "clamp speedRotationControl (snap speedRotationControl 250) = 200"
    using sp by simp
  have s250: "frame_earthRotationSpeed
         (speedRotationControl_input 250 (new_SolarSystemApp\<lparr>speedControls := Some ?sc\<rparr>)) = 200"
    using sp c250 by simp
  have ne: "moonOrbitInclination new_SolarSystemApp \<noteq> 10"
    by (simp add: new_SolarSystemApp_def)
  have q: "moonGroup_quaternion (moonOrbitInclination_input 15 new_SolarSystemApp)
       = rotateX (rotateY identity_q (this_elapsedTime new_SolarSystemApp * (0.2 * (365.25 / 27.32))))
           (10 * pi / 180)"
    using hi ne unfolding c15 by blast
  show ?thesis
    using s15 sm3 s250 ne q by simp
qed

text \<open>
  C7 (as stated). The value 15, outside 0 to 10, typed into the inclination control of
  the state the constructor leaves is not rejected: 10 is stored in place of 5.1, and the
  Moon group's orientation changes.
\<close>

theorem inclination_out_of_range_counterexample:
  "\<not> ((0::real) \<le> 15 \<and> (15::real) \<le> 10)
   \<and> moonOrbitInclination new_SolarSystemApp = 5.1
   \<and> moonOrbitInclination (moonOrbitInclination_input 15 new_SolarSystemApp) = 10
   \<and> moonGroup_quaternion (moonOrbitInclination_input 15 new_SolarSystemApp)
       \<noteq> moonGroup_quaternion new_SolarSystemApp"
proof -
  have c15: "clamp moonOrbitInclinationControl (snap moonOrbitInclinationControl 15) = 10"
    by (rule inclination_out_of_range) simp
  have old: "moonOrbitInclination new_SolarSystemApp = 5.1"
    by (simp add: new_SolarSystemApp_def)
  have stored: "moonOrbitInclination (moonOrbitInclination_input 15 new_SolarSystemApp) = 10"
    by (simp only: inclination_input_stored c15)
  have changed: "moonOrbitInclination new_SolarSystemApp
        \<noteq> clamp moonOrbitInclinationControl (snap moonOrbitInclinationControl 15)"
    unfolding c15 old by simp
  have set: "moonGroup_quaternion (moonOrbitInclination_input 15 new_SolarSystemApp)
             = rotateX (rotateY identity_q (this_elapsedTime new_SolarSystemApp * (0.2 * (365.25 / 27.32))))
                 (10 * pi / 180)"
    using inclination_input_orientation [OF changed] by (simp only: c15)
  have t0: "this_elapsedTime new_SolarSystemApp = 0"
    by (simp add: new_SolarSystemApp_def)
  have "- (pi / 2) \<le> 5.1 * pi / 180 / 2" "5.1 * pi / 180 / 2 < 10 * pi / 180 / 2"
    "10 * pi / 180 / 2 \<le> pi / 2"
    using pi_gt_zero by simp_all
  then have lt: "sin (5.1 * pi / 180 / 2) < sin (10 * pi / 180 / 2)"
    by (rule sin_monotone_2pi)
  have new: "moonGroup_quaternion new_SolarSystemApp
             = Quaternion (sin (5.1 * pi / 180 / 2)) 0 0 (cos (5.1 * pi / 180 / 2))"
    by (simp add: new_SolarSystemApp_def rotateX_def rotateOnAxis_def multiplyQuaternions_def
        setFromAxisAngle_def identity_q_def Let_def)
  have aft: "rotateX (rotateY identity_q (0 * (0.2 * (365.25 / 27.32)))) (10 * pi / 180)
             = Quaternion (sin (10 * pi / 180 / 2)) 0 0 (cos (10 * pi / 180 / 2))"
    unfolding rotateX_rotateY_identity by simp
  have ne: "moonGroup_quaternion (moonOrbitInclination_input 15 new_SolarSystemApp)
       \<noteq> moonGroup_quaternion new_SolarSystemApp"
    unfolding set t0 aft new using lt by simp
  show ?thesis
    using old stored ne by simp
qed

end
